theory Spec2Isabelle
  imports Complex_Main "HOL-Library.Word" "HOL-Library.Sublist" "HOL-Library.AList"
begin

unbundle bit_operations_syntax

chapter \<open>The embedding of the agent's code\<close>

section \<open>MySQL restart monitor (mrms/monitor/instance.go)\<close>

text \<open>
  Go's \<open>int64\<close> is a 64-bit word read as two's complement: \<open>+\<close> and \<open>-\<close> wrap around,
  \<open><\<close> is the signed comparison \<open><s\<close>.
\<close>

type_synonym int64 = "64 word"

text \<open>
  A \<open>time.Time\<close>, as far as the monitor reads it: the seconds since the Unix epoch that
  \<open>Unix()\<close> returns, and the nanoseconds within that second.
\<close>

record Time =
  sec :: int64
  nsec :: "32 word"

definition Unix :: "Time \<Rightarrow> int64" where
  "Unix t = sec t"

text \<open>
  The fields of \<open>mysqlInstance\<close> that \<open>CheckIfMysqlRestarted\<close> reads and writes. The
  logger, the connector and the subscriber map are not touched by it; the one call to the
  connector, \<open>m.mysqlConn.Uptime()\<close>, is the argument \<open>uptime\<close> below.
\<close>

record mysqlInstance =
  lastUptime :: int64
  lastUptimeCheck :: Time

text \<open>
  \<open>CheckIfMysqlRestarted\<close> reads the clock twice: \<open>now1\<close> is the \<open>time.Now()\<close> of the
  elapsed time, \<open>now2\<close> the \<open>time.Now()\<close> that is stored. The result is the returned
  boolean and the instance after the call.
\<close>

definition CheckIfMysqlRestarted ::
  "mysqlInstance \<Rightarrow> int64 \<Rightarrow> Time \<Rightarrow> Time \<Rightarrow> bool \<times> mysqlInstance" where
  "CheckIfMysqlRestarted m uptime now1 now2 =
     (let lastUptime' = lastUptime m;
          lastUptimeCheck' = lastUptimeCheck m;
          currentUptime = uptime;
          elapsedTime = Unix now1 - Unix lastUptimeCheck';
          expectedUptime = lastUptime' + elapsedTime;
          m' = m\<lparr>lastUptime := currentUptime, lastUptimeCheck := now2\<rparr>
      in if currentUptime <s expectedUptime then (True, m') else (False, m'))"

text \<open>The integers an \<open>int64\<close> holds.\<close>

definition int64_range :: "int \<Rightarrow> bool" where
  "int64_range i \<longleftrightarrow> - (2 ^ 63) \<le> i \<and> i < 2 ^ 63"

text \<open>A clock reading at a whole second.\<close>

definition at_sec :: "int64 \<Rightarrow> Time" where
  "at_sec s = \<lparr>sec = s, nsec = 0\<rparr>"

section \<open>Errors\<close>

text \<open>
  A Go \<open>error\<close> value. The typed errors are those of package \<open>pct\<close>, built by the
  code with the fields shown; \<open>ErrorString\<close> is an error known by its message only: one
  made by \<open>errors.New\<close> or \<open>fmt.Errorf\<close>, or one returned by a collaborator outside the
  agent (the database driver, the file system, the JSON decoder, the API connector).
\<close>

datatype error =
    ServiceIsRunningError string
  | UnknownServiceError string
  | UnknownCmdError string
  | QueueFullError string string nat
  | CmdTimeoutError string
  | ErrorString string

section \<open>QAN configuration (qan/manager.go, ValidateConfig)\<close>

text \<open>
  Modelled from the spec: the declarations of \<open>mysql.Query\<close> and \<open>qan.Config\<close> are not
  among the sources. A query is a \<open>(varName, value)\<close> mutation; the config has the fields
  of the specification's data model. The types are the ones the uses in \<open>manager.go\<close>
  force: \<open>MaxWorkers\<close> is compared with \<open>len(m.workers)\<close>, a signed \<open>int\<close>;
  \<open>Interval\<close> is passed to \<open>ticker.Began\<close> beside a \<open>uint(...)\<close> conversion and
  \<open>InstanceId\<close> to a \<open>uint\<close> parameter, and \<open>Interval\<close> and \<open>WorkerRunTime\<close> are
  tested with \<open>== 0\<close> where \<open>MaxWorkers\<close> is tested with \<open>< 1\<close>: they are unsigned.
  \<open>MaxSlowLogSize\<close> is compared with a file offset, an \<open>int64\<close>. The unsigned fields are
  naturals and \<open>MaxWorkers\<close> an integer: validation only compares them. A \<open>nil\<close> slice
  and an empty one are both the empty list (\<open>len\<close> is 0 for both).
\<close>

type_synonym Query = "string \<times> string"

record Config =
  Service :: string
  InstanceId :: nat
  CollectFrom :: string
  Start :: "Query list"
  Stop :: "Query list"
  MaxWorkers :: int
  Interval :: nat
  MaxSlowLogSize :: int64
  RemoveOldSlowLogs :: bool
  ExampleQueries :: bool
  WorkerRunTime :: nat

text \<open>
  \<open>ValidateConfig\<close> takes a pointer: it may rewrite \<open>CollectFrom\<close> and returns an error
  or \<open>nil\<close> (\<open>None\<close>). The result is the config after the call and the error.
\<close>

definition ValidateConfig :: "Config \<Rightarrow> Config \<times> error option" where
  "ValidateConfig config0 =
     (let config = (if CollectFrom config0 = '''' then config0\<lparr>CollectFrom := ''slowlog''\<rparr>
                    else config0)
      in if CollectFrom config \<noteq> ''slowlog'' \<and> CollectFrom config \<noteq> ''perfschema'' then
           (config, Some (ErrorString (''Invalid CollectFrom: '' @ [CHR 0x27] @ CollectFrom config
                            @ [CHR 0x27] @ ''.  Expected '' @ [CHR 0x27] @ ''perfschema''
                            @ [CHR 0x27] @ '' or '' @ [CHR 0x27] @ ''slowlog'' @ [CHR 0x27]
                            @ ''.'')))
         else if length (Start config) = 0 then
           (config, Some (ErrorString ''qan.Config.Start array is empty''))
         else if length (Stop config) = 0 then
           (config, Some (ErrorString ''qan.Config.Stop array is empty''))
         else if MaxWorkers config < 1 then
           (config, Some (ErrorString ''MaxWorkers must be > 0''))
         else if MaxWorkers config > 4 then
           (config, Some (ErrorString ''MaxWorkers must be < 4''))
         else if Interval config = 0 then
           (config, Some (ErrorString ''Interval must be > 0''))
         else if Interval config > 3600 then
           (config, Some (ErrorString ''Interval must be <= 3600 (1 hour)''))
         else if WorkerRunTime config = 0 then
           (config, Some (ErrorString ''WorkerRuntime must be > 0''))
         else if WorkerRunTime config > 1200 then
           (config, Some (ErrorString ''WorkerRuntime must be <= 1200 (20 minutes)''))
         else (config, None))"

text \<open>The bounds of the specification, as one predicate.\<close>

definition within_bounds :: "Config \<Rightarrow> bool" where
  "within_bounds c \<longleftrightarrow>
     (CollectFrom c = ''slowlog'' \<or> CollectFrom c = ''perfschema'' \<or> CollectFrom c = '''')
     \<and> Start c \<noteq> [] \<and> Stop c \<noteq> []
     \<and> 1 \<le> MaxWorkers c \<and> MaxWorkers c \<le> 4
     \<and> 1 \<le> Interval c \<and> Interval c \<le> 3600
     \<and> 1 \<le> WorkerRunTime c \<and> WorkerRunTime c \<le> 1200"

text \<open>A config of the shape the agent is installed with, \<open>CollectFrom\<close> left unset.\<close>

definition default_config :: Config where
  "default_config =
     \<lparr>Service = ''mysql'', InstanceId = 1, CollectFrom = '''',
      Start = [(''slow_query_log'', ''ON'')], Stop = [(''slow_query_log'', ''OFF'')],
      MaxWorkers = 2, Interval = 60, MaxSlowLogSize = 1073741824,
      RemoveOldSlowLogs = True, ExampleQueries = True, WorkerRunTime = 120\<rparr>"

section \<open>Log relay (log/relay.go)\<close>

text \<open>
  A run-time panic of Go: an index or a slice expression out of range, a method called
  on \<open>nil\<close> or a field read through a \<open>nil\<close> pointer, or the \<open>panic\<close> the agent calls
  for the command \<open>Abort\<close>. Where the code can panic, the model returns the panic
  instead of a value.
\<close>

datatype panic = IndexOutOfRange | SliceBoundsOutOfRange | NilDereference | AbortCmd

definition slice_get :: "'a list \<Rightarrow> int \<Rightarrow> panic + 'a" where
  "slice_get xs i =
     (if 0 \<le> i \<and> i < int (length xs) then Inr (xs ! nat i) else Inl IndexOutOfRange)"

definition slice_set :: "'a list \<Rightarrow> int \<Rightarrow> 'a \<Rightarrow> panic + 'a list" where
  "slice_set xs i v =
     (if 0 \<le> i \<and> i < int (length xs) then Inr (xs[nat i := v]) else Inl IndexOutOfRange)"

text \<open>\<open>fmt.Sprintf("%d", n)\<close>: the decimal digits of an integer, with a sign if negative.\<close>

function show_nat :: "nat \<Rightarrow> string" where
  "show_nat n =
     (if n < 10 then [''0123456789'' ! n]
      else show_nat (n div 10) @ [''0123456789'' ! (n mod 10)])"
  by pat_completeness auto
termination
  by (relation "measure id") auto

declare show_nat.simps [simp del]

definition show_int :: "int \<Rightarrow> string" where
  "show_int i = (if i < 0 then ''-'' @ show_nat (nat (- i)) else show_nat (nat i))"

text \<open>
  \<open>proto.LogEntry\<close>. The level is a byte; the constant \<open>proto.LOG_WARNING\<close> belongs to a
  package outside the sources and is an argument of \<open>resend\<close> below.
\<close>

record LogEntry =
  Ts :: Time
  Level :: "8 word"
  Service_e :: string
  Msg :: string

text \<open>
  Modelled from the spec: the websocket client (\<open>pct.WebsocketClient\<close>) is a collaborator
  outside the sources, known by the interface the relay consumes. A \<open>Send\<close> either
  delivers the entry and returns \<open>nil\<close>, or returns an error and delivers nothing. The
  outcomes of the coming calls are scripted in \<open>results\<close>, one per call; past the end of
  the script every call succeeds. \<open>sent\<close> is what the peer has received, in order.
\<close>

record WebsocketClient =
  sent :: "LogEntry list"
  results :: "error option list"

definition Send :: "WebsocketClient \<Rightarrow> LogEntry \<Rightarrow> error option \<times> WebsocketClient" where
  "Send c entry =
     (case results c of
        [] \<Rightarrow> (None, c\<lparr>sent := sent c @ [entry]\<rparr>)
      | None # rs \<Rightarrow> (None, c\<lparr>sent := sent c @ [entry], results := rs\<rparr>)
      | Some err # rs \<Rightarrow> (Some err, c\<lparr>results := rs\<rparr>))"

text \<open>
  The relay. A slot of a buffer is a pointer to an entry or \<open>nil\<close>. The sizes and the lost
  tally are Go \<open>int\<close>s. The channels, the logger and the log file play no part in
  buffering and resending and are left out.
\<close>

record Relay =
  client :: WebsocketClient
  connected :: bool
  logLevel :: "8 word"
  firstBuf :: "LogEntry option list"
  firstBufSize :: int
  secondBuf :: "LogEntry option list"
  secondBufSize :: int
  lost :: int
  offline :: bool

text \<open>
  \<open>BUFFER_SIZE\<close> is the constant 10 in the source. The functions below take the size as
  their first argument, so that they can also be run with the size 2 of the
  specification's scenario.
\<close>

definition BUFFER_SIZE :: int where
  "BUFFER_SIZE = 10"

definition NewRelay :: "int \<Rightarrow> WebsocketClient \<Rightarrow> 8 word \<Rightarrow> bool \<Rightarrow> Relay" where
  "NewRelay bsize c level off =
     \<lparr>client = c, connected = False, logLevel = level,
      firstBuf = replicate (nat bsize) None, firstBufSize = 0,
      secondBuf = replicate (nat bsize) None, secondBufSize = 0,
      lost = 0, offline = off\<rparr>"

text \<open>The loop of \<open>buffer\<close> that sets every slot of the second buffer to \<open>nil\<close>.\<close>

function clear_slots :: "int \<Rightarrow> int \<Rightarrow> LogEntry option list \<Rightarrow> panic + LogEntry option list"
  where
  "clear_slots bsize i buf =
     (if i < bsize then
        (case slice_set buf i None of
           Inl p \<Rightarrow> Inl p
         | Inr buf' \<Rightarrow> clear_slots bsize (i + 1) buf')
      else Inr buf)"
  by pat_completeness auto
termination
  by (relation "measure (\<lambda>(bsize, i, buf). nat (bsize - i))") auto

declare clear_slots.simps [simp del]

definition buffer :: "int \<Rightarrow> Relay \<Rightarrow> LogEntry \<Rightarrow> panic + Relay" where
  "buffer bsize r e =
     (if firstBufSize r < bsize then
        (case slice_set (firstBuf r) (firstBufSize r) (Some e) of
           Inl p \<Rightarrow> Inl p
         | Inr buf \<Rightarrow> Inr (r\<lparr>firstBuf := buf, firstBufSize := firstBufSize r + 1\<rparr>))
      else if secondBufSize r < bsize then
        (case slice_set (secondBuf r) (secondBufSize r) (Some e) of
           Inl p \<Rightarrow> Inl p
         | Inr buf \<Rightarrow> Inr (r\<lparr>secondBuf := buf, secondBufSize := secondBufSize r + 1\<rparr>))
      else
        (case clear_slots bsize 0 (secondBuf r) of
           Inl p \<Rightarrow> Inl p
         | Inr cleared \<Rightarrow>
             (case slice_set cleared 0 (Some e) of
                Inl p \<Rightarrow> Inl p
              | Inr buf \<Rightarrow>
                  Inr (r\<lparr>lost := lost r + secondBufSize r, secondBuf := buf,
                         secondBufSize := 1\<rparr>))))"

text \<open>
  \<open>send\<close> sets a write deadline on the connection (no effect on the relay), sends, and on
  an error buffers the entry if asked to. It returns the error of \<open>Send\<close>.
\<close>

definition send :: "int \<Rightarrow> Relay \<Rightarrow> LogEntry \<Rightarrow> bool \<Rightarrow> panic + (error option \<times> Relay)" where
  "send bsize r entry bufferOnErr =
     (case Send (client r) entry of
        (None, c) \<Rightarrow> Inr (None, r\<lparr>client := c\<rparr>)
      | (Some err, c) \<Rightarrow>
          (if bufferOnErr then
             (case buffer bsize (r\<lparr>client := c\<rparr>) entry of
                Inl p \<Rightarrow> Inl p
              | Inr r' \<Rightarrow> Inr (Some err, r'))
           else Inr (Some err, r\<lparr>client := c\<rparr>)))"

text \<open>The first loop of \<open>resend\<close>, over the slots of \<open>firstBuf\<close> from \<open>i\<close> on.\<close>

function resend_first :: "int \<Rightarrow> int \<Rightarrow> Relay \<Rightarrow> panic + Relay" where
  "resend_first bsize i r =
     (if i < bsize then
        (case slice_get (firstBuf r) i of
           Inl p \<Rightarrow> Inl p
         | Inr None \<Rightarrow> resend_first bsize (i + 1) r
         | Inr (Some entry) \<Rightarrow>
             (case send bsize r entry False of
                Inl p \<Rightarrow> Inl p
              | Inr (Some err, r') \<Rightarrow> resend_first bsize (i + 1) r'
              | Inr (None, r') \<Rightarrow>
                  (case slice_set (firstBuf r') i None of
                     Inl p \<Rightarrow> Inl p
                   | Inr buf \<Rightarrow>
                       resend_first bsize (i + 1)
                         (r'\<lparr>firstBuf := buf, firstBufSize := firstBufSize r' - 1\<rparr>))))
      else Inr r)"
  by pat_completeness auto
termination
  by (relation "measure (\<lambda>(bsize, i, r). nat (bsize - i))") auto

declare resend_first.simps [simp del]

text \<open>The last loop of \<open>resend\<close>, over the slots of \<open>secondBuf\<close> from \<open>i\<close> on.\<close>

function resend_second :: "int \<Rightarrow> int \<Rightarrow> Relay \<Rightarrow> panic + Relay" where
  "resend_second bsize i r =
     (if i < bsize then
        (case slice_get (secondBuf r) i of
           Inl p \<Rightarrow> Inl p
         | Inr None \<Rightarrow> resend_second bsize (i + 1) r
         | Inr (Some entry) \<Rightarrow>
             (case send bsize r entry False of
                Inl p \<Rightarrow> Inl p
              | Inr (Some err, r') \<Rightarrow> resend_second bsize (i + 1) r'
              | Inr (None, r') \<Rightarrow>
                  (case slice_set (secondBuf r') i None of
                     Inl p \<Rightarrow> Inl p
                   | Inr buf \<Rightarrow>
                       resend_second bsize (i + 1)
                         (r'\<lparr>secondBuf := buf, secondBufSize := secondBufSize r' - 1\<rparr>))))
      else Inr r)"
  by pat_completeness auto
termination
  by (relation "measure (\<lambda>(bsize, i, r). nat (bsize - i))") auto

declare resend_second.simps [simp del]

text \<open>The entry that reports the lost ones, stamped with the clock reading \<open>now\<close>.\<close>

definition lost_entry :: "8 word \<Rightarrow> Time \<Rightarrow> int \<Rightarrow> LogEntry" where
  "lost_entry LOG_WARNING now n =
     \<lparr>Ts = now, Level = LOG_WARNING, Service_e = ''log'',
      Msg = ''Lost '' @ show_int n @ '' log entries''\<rparr>"

definition resend :: "int \<Rightarrow> 8 word \<Rightarrow> Time \<Rightarrow> Relay \<Rightarrow> panic + Relay" where
  "resend bsize LOG_WARNING now r =
     (case resend_first bsize 0 r of
        Inl p \<Rightarrow> Inl p
      | Inr r1 \<Rightarrow>
          (case (if lost r1 > 0 then
                   (case send bsize r1 (lost_entry LOG_WARNING now (lost r1)) False of
                      Inl p \<Rightarrow> Inl p
                    | Inr (err, r') \<Rightarrow> Inr (r'\<lparr>lost := 0\<rparr>))
                 else Inr r1) of
             Inl p \<Rightarrow> Inl p
           | Inr r2 \<Rightarrow> resend_second bsize 0 r2))"

text \<open>Buffering a run of entries, one call of \<open>buffer\<close> each, as the relay does offline.\<close>

fun buffer_all :: "int \<Rightarrow> Relay \<Rightarrow> LogEntry list \<Rightarrow> panic + Relay" where
  "buffer_all bsize r [] = Inr r"
| "buffer_all bsize r (e # es) =
     (case buffer bsize r e of Inl p \<Rightarrow> Inl p | Inr r' \<Rightarrow> buffer_all bsize r' es)"

text \<open>
  The scenario: a new relay, not connected, buffers the entries; the client connects and
  the relay resends (\<open>Run\<close> calls \<open>resend\<close> when the client reports the connection; the
  line it logs about the connection goes through the log channel and is handled after
  the resend). The result is what the peer has received.
\<close>

definition sent_after_reconnect ::
  "int \<Rightarrow> 8 word \<Rightarrow> Time \<Rightarrow> LogEntry list \<Rightarrow> panic + LogEntry list" where
  "sent_after_reconnect bsize LOG_WARNING now es =
     (case buffer_all bsize (NewRelay bsize \<lparr>sent = [], results = []\<rparr> LOG_WARNING False) es of
        Inl p \<Rightarrow> Inl p
      | Inr r \<Rightarrow>
          (case resend bsize LOG_WARNING now (r\<lparr>connected := True\<rparr>) of
             Inl p \<Rightarrow> Inl p
           | Inr r' \<Rightarrow> Inr (sent (client r'))))"

text \<open>An entry with the given message.\<close>

definition entry_of :: "string \<Rightarrow> LogEntry" where
  "entry_of msg = \<lparr>Ts = at_sec 0, Level = 3, Service_e = ''test'', Msg = msg\<rparr>"

section \<open>Commands, replies, logging and status\<close>

text \<open>
  \<open>proto.Cmd\<close>, with the fields of the specification's data model. \<open>Data\<close> is the
  undecoded payload.
\<close>

record Cmd =
  Id_c :: string
  Ts_c :: Time
  User_c :: string
  Service_c :: string
  Cmd_c :: string
  Data_c :: string

text \<open>
  A value of the status registry (\<open>pct.Status\<close>): a string set by \<open>Update\<close>, a string
  with the command it is about set by \<open>UpdateRe\<close>, or the two times of the last interval
  (the code formats them into one string with the time layouts of the standard library).
\<close>

datatype StatusVal = Str string | Re string Cmd | FromTo Time Time

type_synonym Status = "string \<rightharpoonup> StatusVal"

text \<open>\<open>proto.AgentConfig\<close>, the form in which a config is returned.\<close>

record AgentConfig =
  InternalService :: string
  Config_json :: string
  Running :: bool

text \<open>
  Modelled from the spec: the \<open>Error()\<close> methods of package \<open>pct\<close> and \<open>Cmd.Reply\<close> of
  package \<open>proto\<close> are not among the sources. By the specification a reply is
  \<open>{Id, Data, Error}\<close>, it answers the command with the same \<open>Id\<close>, several errors are
  joined into \<open>Error\<close>, and the error of a start of the running service \<open>qan\<close> contains
  \<open>qan is running\<close>. The texts of the other typed errors and the separator of the join
  are not given by the specification; the ones below are placeholders on which no
  property depends. The reply also keeps the errors it was built from.
\<close>

definition Error_text :: "error \<Rightarrow> string" where
  "Error_text e =
     (case e of
        ServiceIsRunningError s \<Rightarrow> s @ '' is running''
      | UnknownServiceError s \<Rightarrow> ''Unknown service: '' @ s
      | UnknownCmdError c \<Rightarrow> ''Unknown command: '' @ c
      | QueueFullError c n k \<Rightarrow> n @ '' is full''
      | CmdTimeoutError c \<Rightarrow> ''Timeout waiting for '' @ c
      | ErrorString s \<Rightarrow> s)"

text \<open>\<open>strings.Join\<close>.\<close>

fun Join :: "string list \<Rightarrow> string \<Rightarrow> string" where
  "Join [] sep = ''''"
| "Join [x] sep = x"
| "Join (x # y # ys) sep = x @ sep @ Join (y # ys) sep"

text \<open>
  Modelled from the spec: the declaration of the agent's \<open>Config\<close> is not among the
  sources; it has the fields of the specification's data model, \<open>Links\<close> being a map
  from names to URLs.
\<close>

record AgentCfg =
  ApiHostname :: string
  ApiKey :: string
  AgentUuid :: string
  Links :: "(string \<times> string) list"

datatype ReplyData =
    NoData
  | Configs "AgentConfig list"
  | OneConfig AgentCfg

record Reply =
  Id_r :: string
  Cmd_r :: string
  Data_r :: ReplyData
  Errors_r :: "error list"
  Error_r :: string

definition mkReply :: "Cmd \<Rightarrow> ReplyData \<Rightarrow> error list \<Rightarrow> Reply" where
  "mkReply cmd data errs =
     \<lparr>Id_r = Id_c cmd, Cmd_r = Cmd_c cmd, Data_r = data, Errors_r = errs,
      Error_r = Join (map Error_text errs) [CHR 0x0A]\<rparr>"

text \<open>
  What the code hands to its logger: the level of the call and its arguments, in order.
  An argument is a string (a literal or the result of \<open>fmt.Sprintf\<close> with \<open>%d\<close>), an
  error, a time, a command, a reply, the value of a recovered panic, or a number of
  seconds that the code prints with \<open>%.1f\<close>.
\<close>

datatype LogLevel = DEBUG | INFO | WARN | ERROR | FATAL

datatype LogArg =
  S string | E error | T Time | C Cmd | R Reply | P panic | Seconds real

type_synonym LogLine = "LogLevel \<times> LogArg list"

section \<open>QAN manager (qan/manager.go)\<close>

text \<open>
  Modelled from the spec: \<open>qan.Interval\<close>, \<open>qan.Job\<close> and \<open>proto.MySQLInstance\<close> are
  declared outside the sources. An interval has the fields of the specification's data
  model, a job the fields \<open>run\<close> fills in; of the MySQL instance only the DSN is read.
\<close>

record Interval =
  Number :: int
  StartTime :: Time
  StopTime :: Time
  Filename :: string
  StartOffset :: int64
  EndOffset :: int64

record Job =
  Id_j :: string
  SlowLogFile :: string
  StartOffset_j :: int64
  EndOffset_j :: int64
  RunTime :: int64
  ExampleQueries_j :: bool

record MySQLInstance =
  DSN :: string

text \<open>
  A worker is an object made by the worker factory; the manager uses it as a key of its
  worker map. The model knows a worker by an identifying number.
\<close>

type_synonym Worker = nat

text \<open>
  The calls the manager makes on its collaborators (the interval iterator, the clock, the
  restart monitor, the MySQL connector, the sync channel of \<open>run\<close>, the basedir, the
  factories, the file system), recorded in the order they are made, and the goroutines
  it starts.
\<close>

datatype Op =
    ReadConfig_op string
  | WriteConfig_op string Config
  | RemoveConfig_op string
  | ImGet_op string nat
  | MakeConn_op string
  | MrmAdd_op string
  | MrmRemove_op string "nat option"
  | Connect_op nat
  | Set_op "Query list"
  | Close_op
  | MakeIter_op string
  | IterStart_op
  | IterStop_op
  | GoRun_op Config
  | ClockAdd_op nat bool
  | ClockRemove_op
  | TickSend_op Time
  | SyncStop_op
  | SyncWait_op
  | SyncGraceful_op
  | SyncDone_op
  | Rename_op string string
  | Remove_op string
  | MakeWorker_op string string "string option"
  | GoWorker_op Worker Job Interval

text \<open>
  What the collaborators answer during one call of the manager. They are outside the
  sources and the manager cannot tell what they will return: every answer is an argument
  of the model. \<open>env_now\<close> is the clock; \<open>env_IsNotExist\<close> is \<open>os.IsNotExist\<close>;
  \<open>env_ETA\<close> is the clock's time to the next tick, in seconds; \<open>env_Began\<close> is
  \<open>ticker.Began\<close>.
\<close>

record World =
  env_now :: Time
  env_ReadConfig :: "string \<Rightarrow> error + Config"
  env_IsNotExist :: "error \<Rightarrow> bool"
  env_Unmarshal :: "string \<Rightarrow> error + Config"
  env_Marshal :: "Config \<Rightarrow> error + string"
  env_WriteConfig :: "string \<Rightarrow> Config \<Rightarrow> error option"
  env_RemoveConfig :: "string \<Rightarrow> error option"
  env_ImGet :: "string \<Rightarrow> nat \<Rightarrow> error + MySQLInstance"
  env_MrmAdd :: "string \<Rightarrow> error + nat"
  env_Connect :: "nat \<Rightarrow> error option"
  env_Set :: "Query list \<Rightarrow> error option"
  env_ETA :: real
  env_Began :: "nat \<Rightarrow> nat \<Rightarrow> Time"
  env_Rename :: "string \<Rightarrow> string \<Rightarrow> error option"
  env_FileSize :: "string \<Rightarrow> int64"
  env_Remove :: "string \<Rightarrow> error option"
  env_MakeWorker :: "string \<Rightarrow> string \<Rightarrow> string option \<Rightarrow> Worker"

text \<open>
  The manager. \<open>config\<close> is a pointer, \<open>nil\<close> before the first start. \<open>mysqlConn\<close> is
  the connector, known by the DSN it was made for, \<open>iter\<close> the iterator (present or
  \<open>nil\<close>), \<open>restartChan\<close> the channel the restart monitor gave. The two maps are lists of
  keys and values; \<open>len\<close> of a map is the length of the list, whose keys are distinct.
  The two locks are left out: the model runs one call at a time.
\<close>

record Manager =
  config :: "Config option"
  running :: bool
  mysqlConn :: "string option"
  mysqlInstance :: "MySQLInstance option"
  restartChan :: "nat option"
  iter :: "string option"
  workers :: "(Worker \<times> Interval) list"
  oldSlowLogs :: "(string \<times> int) list"
  status :: Status
  logged :: "LogLine list"
  ops :: "Op list"

definition NewManager :: Manager where
  "NewManager =
     \<lparr>config = None, running = False, mysqlConn = None, mysqlInstance = None,
      restartChan = None, iter = None, workers = [], oldSlowLogs = [],
      status = [''qan'' \<mapsto> Str '''', ''qan-parser'' \<mapsto> Str '''',
                ''qan-last-interval'' \<mapsto> Str '''', ''qan-next-interval'' \<mapsto> Str ''''],
      logged = [], ops = []\<rparr>"

definition logf :: "LogLevel \<Rightarrow> LogArg list \<Rightarrow> Manager \<Rightarrow> Manager" where
  "logf lvl args m = m\<lparr>logged := logged m @ [(lvl, args)]\<rparr>"

definition call :: "Op \<Rightarrow> Manager \<Rightarrow> Manager" where
  "call op m = m\<lparr>ops := ops m @ [op]\<rparr>"

definition Update :: "string \<Rightarrow> StatusVal \<Rightarrow> Manager \<Rightarrow> Manager" where
  "Update name v m = m\<lparr>status := (status m)(name \<mapsto> v)\<rparr>"

text \<open>\<open>makeMySQLConn\<close>: the two debug lines are the call and the deferred one.\<close>

definition makeMySQLConn :: "World \<Rightarrow> Manager \<Rightarrow> string \<Rightarrow> nat \<Rightarrow> error option \<times> Manager" where
  "makeMySQLConn w m0 service instanceId =
     (let m1 = logf DEBUG [S ''makeMySQLConn:call''] m0;
          m2 = call (ImGet_op service instanceId) m1;
          (err, m3) =
            (case env_ImGet w service instanceId of
               Inl err \<Rightarrow> (Some err, m2)
             | Inr mysqlIt \<Rightarrow>
                 (None, call (MakeConn_op (DSN mysqlIt))
                          (m2\<lparr>mysqlInstance := Some mysqlIt, mysqlConn := Some (DSN mysqlIt)\<rparr>)))
      in (err, logf DEBUG [S ''makeMySQLConn:return''] m3))"

text \<open>
  \<open>configureMySQL\<close>: connect, set the \<open>Start\<close> queries, and close when the function
  returns after a successful connect. Calling a method of a \<open>nil\<close> connector panics. A
  panic is returned with the manager as the unwinding leaves it: the deferred calls of the
  functions it passes through have run.
\<close>

definition configureMySQL ::
  "World \<Rightarrow> Manager \<Rightarrow> Config \<Rightarrow> (panic \<times> Manager) + (error option \<times> Manager)" where
  "configureMySQL w m0 cfg =
     (let m1 = logf DEBUG [S ''configureMySQL:call''] m0
      in case mysqlConn m1 of
           None \<Rightarrow> Inl (NilDereference, logf DEBUG [S ''configureMySQL:return''] m1)
         | Some dsn \<Rightarrow>
             (let m2 = call (Connect_op 2) m1;
                  (err, m3) =
                    (case env_Connect w 2 of
                       Some err \<Rightarrow> (Some err, m2)
                     | None \<Rightarrow>
                         (let m2' = call (Set_op (Start cfg)) m2
                          in (env_Set w (Start cfg), call Close_op m2')))
              in Inr (err, logf DEBUG [S ''configureMySQL:return''] m3)))"

text \<open>
  \<open>start\<close>. The config is passed by pointer and \<open>ValidateConfig\<close> may rewrite it, so the
  config after the call is returned beside the error. The closure that finds the slow
  log for the iterator runs in the iterator, not here. \<open>go m.run(*config)\<close> starts the
  loop \<open>run_step\<close> below with a copy of the config.
\<close>

definition start_steps ::
  "World \<Rightarrow> Manager \<Rightarrow> Config
     \<Rightarrow> (panic \<times> Manager) + (error option \<times> Config \<times> Manager)" where
  "start_steps w m config0 =
     (case ValidateConfig config0 of
        (cfg, Some err) \<Rightarrow> Inr (Some err, cfg, m)
      | (cfg, None) \<Rightarrow>
          (case makeMySQLConn w m (Service cfg) (InstanceId cfg) of
             (Some err, m2) \<Rightarrow> Inr (Some err, cfg, m2)
           | (None, m2) \<Rightarrow>
               (case mysqlConn m2 of
                  None \<Rightarrow> Inl (NilDereference, m2)
                | Some dsn \<Rightarrow>
                    (let m3 = call (MrmAdd_op dsn) m2
                     in case env_MrmAdd w dsn of
                          Inl err \<Rightarrow> Inr (Some err, cfg, m3)
                        | Inr ch \<Rightarrow>
                            (case configureMySQL w (m3\<lparr>restartChan := Some ch\<rparr>) cfg of
                               Inl p \<Rightarrow> Inl p
                             | Inr (Some err, m5) \<Rightarrow> Inr (Some err, cfg, m5)
                             | Inr (None, m5) \<Rightarrow>
                                 (let m6 = call IterStart_op
                                             ((call (MakeIter_op (CollectFrom cfg)) m5)
                                                \<lparr>iter := Some (CollectFrom cfg)\<rparr>);
                                      m7 = call (GoRun_op cfg) m6;
                                      m8 = call (ClockAdd_op (Interval cfg) True) m7;
                                      t = env_ETA w;
                                      m9 = (if t > 60 then
                                              (let began = env_Began w (Interval cfg)
                                                             (unat (Unix (env_now w)))
                                               in call (TickSend_op began)
                                                    (logf INFO [S ''First interval began at'',
                                                                T began] m8))
                                            else logf INFO
                                                   [S ''First interval begins in %.1f seconds'',
                                                    Seconds t] m8)
                                  in Inr (None, cfg, m9)))))))"

definition start ::
  "World \<Rightarrow> Manager \<Rightarrow> Config
     \<Rightarrow> (panic \<times> Manager) + (error option \<times> Config \<times> Manager)" where
  "start w m config0 =
     (case start_steps w (logf DEBUG [S ''start:call''] m) config0 of
        Inl (p, m') \<Rightarrow> Inl (p, logf DEBUG [S ''start:return''] m')
      | Inr (err, cfg, m') \<Rightarrow> Inr (err, cfg, logf DEBUG [S ''start:return''] m'))"

text \<open>
  \<open>stop\<close>. Between \<open>m.sync.Stop()\<close> and the return of \<open>m.sync.Wait()\<close> the loop \<open>run\<close>
  takes its stop branch (\<open>run_step\<close> on \<open>StopEv\<close>) in its own goroutine.
\<close>

definition stop :: "World \<Rightarrow> Manager \<Rightarrow> (panic \<times> Manager) + (error option \<times> Manager)" where
  "stop w m0 =
     (let m1 = logf DEBUG [S ''stop:call''] m0
      in case iter m1 of
           None \<Rightarrow> Inl (NilDereference, logf DEBUG [S ''stop:return''] m1)
         | Some it \<Rightarrow>
             (let m2 = call ClockRemove_op ((call IterStop_op m1)\<lparr>iter := None\<rparr>)
              in case mysqlConn m2 of
                   None \<Rightarrow> Inl (NilDereference, logf DEBUG [S ''stop:return''] m2)
                 | Some dsn \<Rightarrow>
                     (let m3 = call SyncWait_op
                                 (call SyncStop_op
                                    (call (MrmRemove_op dsn (restartChan m2)) m2));
                          m4 = logf DEBUG [S ''stop:mysql''] m3;
                          m5 = call (Connect_op 2) m4
                      in case env_Connect w 2 of
                           Some err \<Rightarrow> Inr (Some err, logf DEBUG [S ''stop:return''] m5)
                         | None \<Rightarrow>
                             (case config m5 of
                                None \<Rightarrow>
                                  Inl (NilDereference,
                                       logf DEBUG [S ''stop:return''] (call Close_op m5))
                              | Some cfg \<Rightarrow>
                                  Inr (env_Set w (Stop cfg),
                                       logf DEBUG [S ''stop:return'']
                                         (call Close_op (call (Set_op (Stop cfg)) m5)))))))"

text \<open>
  \<open>Manager.Start\<close>: the result is the returned error and the manager after the call. The
  deferred status update to \<open>Running\<close> is made on every return after the first.
\<close>

definition Start_m :: "World \<Rightarrow> Manager \<Rightarrow> (panic \<times> Manager) + (error option \<times> Manager)"
  where
  "Start_m w m =
     (if running m then Inr (Some (ServiceIsRunningError ''qan''), m)
      else
        (let m1 = Update ''qan'' (Str ''Starting'') m;
             m2 = call (ReadConfig_op ''qan'') m1
         in case (case env_ReadConfig w ''qan'' of
                    Inl err \<Rightarrow>
                      (if env_IsNotExist w err then Inr (None, logf INFO [S ''Not enabled''] m2)
                       else Inr (None, logf ERROR [S ''Read qan config:'', E err] m2))
                  | Inr cfg0 \<Rightarrow>
                      (case ValidateConfig cfg0 of
                         (cfg, Some err) \<Rightarrow>
                           Inr (None, logf ERROR [S ''Invalid qan config:'', E err] m2)
                       | (cfg, None) \<Rightarrow>
                           (case start w m2 cfg of
                              Inl p \<Rightarrow> Inl p
                            | Inr (Some err, cfg', m3) \<Rightarrow>
                                Inr (None, logf ERROR [S ''Start pfs:'', E err] m3)
                            | Inr (None, cfg', m3) \<Rightarrow>
                                Inr (None, logf INFO [S ''Started'']
                                             (m3\<lparr>config := Some cfg', running := True\<rparr>))))) of
              Inl (p, m') \<Rightarrow> Inl (p, Update ''qan'' (Str ''Running'') m')
            | Inr (err, m') \<Rightarrow> Inr (err, Update ''qan'' (Str ''Running'') m')))"

definition Stop_m :: "World \<Rightarrow> Manager \<Rightarrow> (panic \<times> Manager) + (error option \<times> Manager)"
  where
  "Stop_m w m =
     (if \<not> running m then Inr (None, m)
      else
        (case stop w (Update ''qan'' (Str ''Stopping'') m) of
           Inl p \<Rightarrow> Inl p
         | Inr (err, m2) \<Rightarrow>
             (let m3 = (case err of Some e \<Rightarrow> logf ERROR [E e] m2 | None \<Rightarrow> m2)
              in Inr (None, Update ''qan'' (Str ''Stopped'')
                              (logf INFO [S ''Stopped''] (m3\<lparr>running := False\<rparr>))))))"

definition GetConfig_m :: "World \<Rightarrow> Manager \<Rightarrow> AgentConfig list \<times> error list \<times> Manager" where
  "GetConfig_m w m =
     (let m1 = logf DEBUG [S ''GetConfig:call''] m;
          (cfgs, errs) =
            (case config m1 of
               None \<Rightarrow> ([], [])
             | Some cfg \<Rightarrow>
                 (case env_Marshal w cfg of
                    Inl err \<Rightarrow> ([], [err])
                  | Inr bytes \<Rightarrow>
                      ([\<lparr>InternalService = ''qan'', Config_json = bytes,
                         Running = running m1\<rparr>], [])))
      in (cfgs, errs, logf DEBUG [S ''GetConfig:return''] m1))"

text \<open>
  \<open>Manager.Handle\<close>: the reply and the manager after the call. The status is set to
  \<open>Handling\<close> on entry and, deferred, to \<open>Running\<close> on every return.
\<close>

definition Handle_m :: "World \<Rightarrow> Manager \<Rightarrow> Cmd \<Rightarrow> (panic \<times> Manager) + (Reply \<times> Manager)"
  where
  "Handle_m w m0 cmd =
     (let m = Update ''qan'' (Re ''Handling'' cmd) m0
      in case (if Cmd_c cmd = ''StartService'' then
                 (if running m then Inr (mkReply cmd NoData [ServiceIsRunningError ''qan''], m)
                  else
                    (case env_Unmarshal w (Data_c cmd) of
                       Inl err \<Rightarrow> Inr (mkReply cmd NoData [err], m)
                     | Inr cfg0 \<Rightarrow>
                         (case start w m cfg0 of
                            Inl p \<Rightarrow> Inl p
                          | Inr (Some err, cfg, m1) \<Rightarrow> Inr (mkReply cmd NoData [err], m1)
                          | Inr (None, cfg, m1) \<Rightarrow>
                              (let m2 = call (WriteConfig_op ''qan'' cfg)
                                          (m1\<lparr>running := True, config := Some cfg\<rparr>)
                               in case env_WriteConfig w ''qan'' cfg of
                                    Some err \<Rightarrow> Inr (mkReply cmd NoData [err], m2)
                                  | None \<Rightarrow> Inr (mkReply cmd NoData [], m2)))))
               else if Cmd_c cmd = ''StopService'' then
                 (if \<not> running m then Inr (mkReply cmd NoData [], m)
                  else
                    (case stop w m of
                       Inl p \<Rightarrow> Inl p
                     | Inr (err, m1) \<Rightarrow>
                         (let errs1 = (case err of Some e \<Rightarrow> [e] | None \<Rightarrow> []);
                              m2 = call (RemoveConfig_op ''qan'') (m1\<lparr>running := False\<rparr>);
                              errs2 = (case env_RemoveConfig w ''qan'' of
                                         Some e \<Rightarrow> errs1 @ [e]
                                       | None \<Rightarrow> errs1)
                          in Inr (mkReply cmd NoData errs2, m2))))
               else if Cmd_c cmd = ''GetConfig'' then
                 (case GetConfig_m w m of
                    (cfgs, errs, m1) \<Rightarrow> Inr (mkReply cmd (Configs cfgs) errs, m1))
               else Inr (mkReply cmd NoData [UnknownCmdError (Cmd_c cmd)], m)) of
           Inl (p, m') \<Rightarrow> Inl (p, Update ''qan'' (Str ''Running'') m')
         | Inr (reply, m') \<Rightarrow> Inr (reply, Update ''qan'' (Str ''Running'') m'))"

text \<open>
  A world in which every collaborator succeeds, a \<open>StartService\<close> and a \<open>StopService\<close>
  command for \<open>qan\<close>, and the reply and the manager after a new manager has handled the
  first.
\<close>

definition quiet_world :: World where
  "quiet_world =
     \<lparr>env_now = at_sec 1000,
      env_ReadConfig = (\<lambda>name. Inr default_config),
      env_IsNotExist = (\<lambda>err. False),
      env_Unmarshal = (\<lambda>bytes. Inr default_config),
      env_Marshal = (\<lambda>cfg. Inr ''{}''),
      env_WriteConfig = (\<lambda>name cfg. None),
      env_RemoveConfig = (\<lambda>name. None),
      env_ImGet = (\<lambda>service instanceId. Inr \<lparr>DSN = ''percona:secret@tcp(127.0.0.1:3306)/''\<rparr>),
      env_MrmAdd = (\<lambda>dsn. Inr 0),
      env_Connect = (\<lambda>tries. None),
      env_Set = (\<lambda>queries. None),
      env_ETA = 30,
      env_Began = (\<lambda>period t. at_sec 960),
      env_Rename = (\<lambda>old new. None),
      env_FileSize = (\<lambda>name. 0),
      env_Remove = (\<lambda>name. None),
      env_MakeWorker = (\<lambda>collectFrom name conn. 0)\<rparr>"

definition start_cmd :: Cmd where
  "start_cmd =
     \<lparr>Id_c = ''2'', Ts_c = at_sec 1000, User_c = ''user'', Service_c = ''qan'',
      Cmd_c = ''StartService'', Data_c = ''{}''\<rparr>"

definition stop_cmd :: Cmd where
  "stop_cmd =
     \<lparr>Id_c = ''3'', Ts_c = at_sec 1000, User_c = ''user'', Service_c = ''qan'',
      Cmd_c = ''StopService'', Data_c = ''''\<rparr>"

definition after_first_start :: "Reply \<times> Manager" where
  "after_first_start =
     (case Handle_m quiet_world NewManager start_cmd of
        Inr x \<Rightarrow> x
      | Inl p \<Rightarrow> (mkReply start_cmd NoData [], NewManager))"

subsection \<open>The loop of the manager: \<open>run\<close>\<close>

text \<open>\<open>t.After(u)\<close> on the two parts of a time.\<close>

definition After :: "Time \<Rightarrow> Time \<Rightarrow> bool" where
  "After t u \<longleftrightarrow> sec u <s sec t \<or> (sec t = sec u \<and> nsec u < nsec t)"

text \<open>
  \<open>rotateSlowLog\<close>. The interval is passed by pointer and is changed in place when the
  rotation succeeds: the interval after the call is returned beside the error. The
  connection is closed, deferred, on every return after a successful connect.
\<close>

definition rotateSlowLog ::
  "World \<Rightarrow> Config \<Rightarrow> Manager \<Rightarrow> Interval
     \<Rightarrow> (panic \<times> Manager) + (error option \<times> Interval \<times> Manager)" where
  "rotateSlowLog w cfg m0 interval =
     (let m1 = Update ''qan-parser'' (Str ''Rotating slow log'')
                 (logf DEBUG [S ''rotateSlowLog:call''] m0)
      in case mysqlConn m1 of
           None \<Rightarrow> Inl (NilDereference, logf DEBUG [S ''rotateSlowLog:return''] m1)
         | Some dsn \<Rightarrow>
             (let m2 = call (Connect_op 2) m1;
                  (err, interval', m') =
                    (case env_Connect w 2 of
                       Some err \<Rightarrow> (Some err, interval, logf WARN [E err] m2)
                     | None \<Rightarrow>
                         (let m3 = call (Set_op (Stop cfg)) m2;
                              (err, interval', m') =
                                (case env_Set w (Stop cfg) of
                                   Some err \<Rightarrow> (Some err, interval, m3)
                                 | None \<Rightarrow>
                                     (let newSlowLogFile =
                                            Filename interval @ ''-''
                                              @ show_int (sint (Unix (env_now w)));
                                          m4 = call (Rename_op (Filename interval)
                                                       newSlowLogFile) m3
                                      in case env_Rename w (Filename interval) newSlowLogFile of
                                           Some err \<Rightarrow> (Some err, interval, m4)
                                         | None \<Rightarrow>
                                             (let m5 = call (Set_op (Start cfg)) m4
                                              in case env_Set w (Start cfg) of
                                                   Some err \<Rightarrow> (Some err, interval, m5)
                                                 | None \<Rightarrow>
                                                     (None,
                                                      interval\<lparr>Filename := newSlowLogFile,
                                                        EndOffset :=
                                                          env_FileSize w newSlowLogFile\<rparr>,
                                                      (if RemoveOldSlowLogs cfg then
                                                         m5\<lparr>oldSlowLogs :=
                                                           AList.update newSlowLogFile
                                                             (int (length (workers m5)) + 1)
                                                             (oldSlowLogs m5)\<rparr>
                                                       else m5)))))
                          in (err, interval', call Close_op m')))
              in Inr (err, interval', logf DEBUG [S ''rotateSlowLog:return''] m')))"

text \<open>
  The loop over \<open>m.oldSlowLogs\<close> when a worker is done. Go visits each entry of the map
  once, in an order it does not specify; an iteration changes the entry of its own key
  only. The model visits the entries in the order of the list.
\<close>

fun reap_old_logs :: "World \<Rightarrow> (string \<times> int) list \<Rightarrow> Manager \<Rightarrow> Manager" where
  "reap_old_logs w [] m = m"
| "reap_old_logs w ((file, cnt) # rest) m =
     reap_old_logs w rest
       (if cnt = 1 then
          (let m1 = call (Remove_op file)
                      (Update ''qan-parser'' (Str (''Removing old slow log '' @ file)) m)
           in case env_Remove w file of
                Some err \<Rightarrow> logf WARN [E err] m1
              | None \<Rightarrow>
                  logf INFO [S (''Removed '' @ file)]
                    (m1\<lparr>oldSlowLogs := AList.delete file (oldSlowLogs m1)\<rparr>))
        else m\<lparr>oldSlowLogs := AList.update file (cnt - 1) (oldSlowLogs m)\<rparr>)"

text \<open>
  What \<open>run\<close> receives in its \<open>select\<close>: an interval from the iterator, a worker that is
  done, a restart notification, or the request to stop.
\<close>

datatype RunEvent = IntervalEv Interval | WorkerDoneEv Worker | RestartEv | StopEv

text \<open>
  The loop after one iteration: it goes on, with the manager and its local \<open>lastTs\<close>, or
  it has returned. The deferred function of \<open>run\<close> logs a recovered panic, sets the
  status to \<open>Stopped\<close> after a graceful return and to \<open>Crashed\<close> otherwise, and signals
  \<open>Done\<close>.
\<close>

datatype RunResult = Continue Manager Time | Exited Manager

definition run_crashed :: "panic \<Rightarrow> Manager \<Rightarrow> Manager" where
  "run_crashed p m =
     call SyncDone_op
       (Update ''qan-parser'' (Str ''Crashed'')
          (logf ERROR [S ''QAN manager crashed: '', P p] m))"

definition run_stopped :: "Manager \<Rightarrow> Manager" where
  "run_stopped m =
     call SyncDone_op
       (Update ''qan-parser'' (Str ''Stopped'')
          (call SyncGraceful_op (logf DEBUG [S ''run:stop''] m)))"

text \<open>
  The branch for a new interval. The goroutine started for the worker runs it, spools the
  report and sends the worker to \<open>workerDoneChan\<close>: that is the later \<open>WorkerDoneEv\<close>.
\<close>

definition run_interval :: "World \<Rightarrow> Config \<Rightarrow> Manager \<Rightarrow> Time \<Rightarrow> Interval \<Rightarrow> RunResult" where
  "run_interval w cfg m0 lastTs interval0 =
     (let m1 = logf DEBUG [S (''run:interval:'' @ show_int (Number interval0))] m0;
          runningWorkers = int (length (workers m1));
          m2 = logf DEBUG [S (show_int runningWorkers @ '' workers running'')] m1
      in if runningWorkers \<ge> MaxWorkers cfg then
           Continue (logf WARN [S ''All workers busy, interval dropped''] m2) lastTs
         else
           (case (if CollectFrom cfg = ''slowlog''
                      \<and> MaxSlowLogSize cfg \<le>s EndOffset interval0 then
                    (case rotateSlowLog w cfg (logf INFO [S ''Rotating slow log''] m2)
                            interval0 of
                       Inl pm \<Rightarrow> Inl pm
                     | Inr (None, interval', m') \<Rightarrow> Inr (interval', m')
                     | Inr (Some err, interval', m') \<Rightarrow> Inr (interval', logf ERROR [E err] m'))
                  else Inr (interval0, m2)) of
              Inl (p, mp) \<Rightarrow> Exited (run_crashed p mp)
            | Inr (interval, m3) \<Rightarrow>
                (let m4 = Update ''qan-parser'' (Str ''Running worker'') m3;
                     job = \<lparr>Id_j = show_int (Number interval),
                            SlowLogFile = Filename interval,
                            StartOffset_j = StartOffset interval,
                            EndOffset_j = EndOffset interval,
                            RunTime = of_nat (WorkerRunTime cfg) * 1000000000,
                            ExampleQueries_j = ExampleQueries cfg\<rparr>
                 in case (if CollectFrom cfg = ''perfschema'' then
                            (case mysqlInstance m4 of
                               None \<Rightarrow> Inl (NilDereference, m4)
                             | Some inst \<Rightarrow>
                                 Inr (Some (DSN inst), call (MakeConn_op (DSN inst)) m4))
                          else Inr (None, m4)) of
                      Inl (p, mp) \<Rightarrow> Exited (run_crashed p mp)
                    | Inr (conn, m5) \<Rightarrow>
                        (let name = ''qan-worker-'' @ show_int (Number interval);
                             wk = env_MakeWorker w (CollectFrom cfg) name conn;
                             m6 = call (MakeWorker_op (CollectFrom cfg) name conn) m5;
                             m7 = m6\<lparr>workers := AList.update wk interval (workers m6)\<rparr>
                         in Continue (call (GoWorker_op wk job interval) m7) lastTs))))"

text \<open>
  The branch for a worker that is done. The value of a key that is not in the map is a
  \<open>nil\<close> interval, and reading its start time panics.
\<close>

definition run_worker_done :: "World \<Rightarrow> Config \<Rightarrow> Manager \<Rightarrow> Time \<Rightarrow> Worker \<Rightarrow> RunResult" where
  "run_worker_done w cfg m0 lastTs worker =
     (let m1 = Update ''qan-parser'' (Str ''Reaping worker'')
                 (logf DEBUG [S ''run:worker:done''] m0);
          found = map_of (workers m1) worker;
          m2 = m1\<lparr>workers := AList.delete worker (workers m1)\<rparr>
      in case found of
           None \<Rightarrow> Exited (run_crashed NilDereference m2)
         | Some interval \<Rightarrow>
             (let (m3, lastTs') =
                    (if After (StartTime interval) lastTs then
                       (Update ''qan-last-interval''
                          (FromTo (StartTime interval) (StopTime interval)) m2,
                        StartTime interval)
                     else (m2, lastTs))
              in Continue
                   (if CollectFrom cfg = ''slowlog'' then reap_old_logs w (oldSlowLogs m3) m3
                    else m3)
                   lastTs'))"

definition run_restart :: "World \<Rightarrow> Config \<Rightarrow> Manager \<Rightarrow> Time \<Rightarrow> RunResult" where
  "run_restart w cfg m0 lastTs =
     (case configureMySQL w (logf DEBUG [S ''run:mysql:restart''] m0) cfg of
        Inl (p, mp) \<Rightarrow> Exited (run_crashed p mp)
      | Inr (Some err, m1) \<Rightarrow>
          Continue (logf WARN [S ''Failed to configure MySQL after restart: '', E err] m1)
            lastTs
      | Inr (None, m1) \<Rightarrow> Continue m1 lastTs)"

text \<open>
  One iteration of the loop: the debug line and the status at its top, then the branch of
  the \<open>select\<close> for the event received.
\<close>

definition run_step :: "World \<Rightarrow> Config \<Rightarrow> Manager \<Rightarrow> Time \<Rightarrow> RunEvent \<Rightarrow> RunResult" where
  "run_step w cfg m0 lastTs ev =
     (let m1 = logf DEBUG [S ''run:idle''] m0;
          m = Update ''qan-parser''
                (Str (''Idle ('' @ show_int (int (length (workers m1))) @ '' of ''
                        @ show_int (MaxWorkers cfg) @ '' running)'')) m1
      in case ev of
           IntervalEv interval \<Rightarrow> run_interval w cfg m lastTs interval
         | WorkerDoneEv worker \<Rightarrow> run_worker_done w cfg m lastTs worker
         | RestartEv \<Rightarrow> run_restart w cfg m lastTs
         | StopEv \<Rightarrow> Exited (run_stopped m))"

text \<open>
  \<open>run\<close> from its start: the status is set to \<open>Starting\<close>, \<open>lastTs\<close> is the zero time
  (\<open>time.Time{}\<close>, whose \<open>Unix()\<close> is -62135596800), and the loop takes the events as they
  come, each with what the collaborators answer during its iteration.
\<close>

fun run_loop :: "Config \<Rightarrow> Manager \<Rightarrow> Time \<Rightarrow> (World \<times> RunEvent) list \<Rightarrow> RunResult" where
  "run_loop cfg m lastTs [] = Continue m lastTs"
| "run_loop cfg m lastTs ((w, ev) # evs) =
     (case run_step w cfg m lastTs ev of
        Continue m' lastTs' \<Rightarrow> run_loop cfg m' lastTs' evs
      | Exited m' \<Rightarrow> Exited m')"

definition run :: "Config \<Rightarrow> Manager \<Rightarrow> (World \<times> RunEvent) list \<Rightarrow> RunResult" where
  "run cfg m evs =
     run_loop cfg (Update ''qan-parser'' (Str ''Starting'') m)
       \<lparr>sec = - 62135596800, nsec = 0\<rparr> evs"

definition manager_of :: "RunResult \<Rightarrow> Manager" where
  "manager_of r = (case r of Continue m lastTs \<Rightarrow> m | Exited m \<Rightarrow> m)"

text \<open>Some intervals of a perfschema run, and worlds whose factory makes a given worker.\<close>

definition interval_no :: "int \<Rightarrow> Interval" where
  "interval_no n =
     \<lparr>Number = n, StartTime = at_sec (word_of_int (60 * n)),
      StopTime = at_sec (word_of_int (60 * n + 60)),
      Filename = '''', StartOffset = 0, EndOffset = 0\<rparr>"

definition making :: "Worker \<Rightarrow> World" where
  "making wk = quiet_world\<lparr>env_MakeWorker := (\<lambda>collectFrom name conn. wk)\<rparr>"

definition one_worker_config :: Config where
  "one_worker_config = default_config\<lparr>CollectFrom := ''perfschema'', MaxWorkers := 1\<rparr>"

text \<open>
  A bound on the worker map: its keys are distinct, so that its length is the number of
  registered workers, and there are at most \<open>B\<close> of them. The bound of a config is its
  \<open>MaxWorkers\<close>.
\<close>

definition workers_within :: "int \<Rightarrow> Manager \<Rightarrow> bool" where
  "workers_within B m \<longleftrightarrow> distinct (map fst (workers m)) \<and> int (length (workers m)) \<le> B"

definition workers_ok :: "Config \<Rightarrow> Manager \<Rightarrow> bool" where
  "workers_ok cfg m \<longleftrightarrow> workers_within (MaxWorkers cfg) m"

text \<open>
  A run with room for one worker: an interval is admitted, a second one arrives while the
  worker is busy, the worker finishes, a third interval arrives.
\<close>

definition busy_run :: "(World \<times> RunEvent) list" where
  "busy_run =
     [(making 7, IntervalEv (interval_no 1)),
      (making 8, IntervalEv (interval_no 2)),
      (quiet_world, WorkerDoneEv 7),
      (making 9, IntervalEv (interval_no 3))]"

text \<open>A new manager after a \<open>StartService\<close> whose payload decodes to that config.\<close>

definition one_worker_manager :: Manager where
  "one_worker_manager =
     (case Handle_m (quiet_world\<lparr>env_Unmarshal := (\<lambda>bytes. Inr one_worker_config)\<rparr>)
             NewManager start_cmd of
        Inr (reply, m) \<Rightarrow> m
      | Inl (p, m) \<Rightarrow> m)"

definition one_busy :: Manager where
  "one_busy = manager_of (run one_worker_config one_worker_manager (take 1 busy_run))"

text \<open>The manager after a call of \<open>Handle\<close>, whether the call returned or panicked.\<close>

definition manager_after :: "(panic \<times> Manager) + ('a \<times> Manager) \<Rightarrow> Manager" where
  "manager_after r = (case r of Inl (p, m) \<Rightarrow> m | Inr (x, m) \<Rightarrow> m)"

definition reply_errors :: "(panic \<times> Manager) + (Reply \<times> Manager) \<Rightarrow> panic + error list" where
  "reply_errors r = (case r of Inl (p, m) \<Rightarrow> Inl p | Inr (rp, m) \<Rightarrow> Inr (Errors_r rp))"

text \<open>
  A service that is stopped and started again with less room. A new manager handles a
  \<open>StartService\<close> whose payload decodes to a config with \<open>MaxWorkers\<close> 2; its loop admits
  two intervals, whose workers 7 and 8 are still at work when a \<open>StopService\<close> arrives.
  The loop takes its stop branch inside \<open>stop\<close>, between \<open>m.sync.Stop()\<close> and the return
  of \<open>m.sync.Wait()\<close>; the model, which runs one call at a time, lets it come just before
  the call of \<open>Handle\<close>, and neither touches the worker map. Then the manager handles a
  \<open>StartService\<close> whose payload decodes to the config with \<open>MaxWorkers\<close> 1, and \<open>start\<close>
  starts \<open>run\<close> with that config on the manager as it is. \<open>late_run\<close> is what the new
  loop may then receive: an interval, the two workers of the first run when they are
  done, and another interval.
\<close>

definition two_worker_config :: Config where
  "two_worker_config = default_config\<lparr>CollectFrom := ''perfschema''\<rparr>"

definition decoding :: "Config \<Rightarrow> World" where
  "decoding cfg = quiet_world\<lparr>env_Unmarshal := (\<lambda>bytes. Inr cfg)\<rparr>"

definition two_busy_run :: "(World \<times> RunEvent) list" where
  "two_busy_run =
     [(making 7, IntervalEv (interval_no 1)),
      (making 8, IntervalEv (interval_no 2)),
      (quiet_world, StopEv)]"

definition first_run :: "(panic \<times> Manager) + (Reply \<times> Manager)" where
  "first_run =
     (case Handle_m (decoding two_worker_config) NewManager start_cmd of
        Inl pm \<Rightarrow> Inl pm
      | Inr (rp, m) \<Rightarrow>
          Handle_m quiet_world (manager_of (run two_worker_config m two_busy_run)) stop_cmd)"

definition restarted :: "(panic \<times> Manager) + (Reply \<times> Manager)" where
  "restarted =
     (case first_run of
        Inl pm \<Rightarrow> Inl pm
      | Inr (rp, m) \<Rightarrow> Handle_m (decoding one_worker_config) m start_cmd)"

definition restarted_manager :: Manager where
  "restarted_manager = manager_after restarted"

definition late_run :: "(World \<times> RunEvent) list" where
  "late_run =
     [(making 9, IntervalEv (interval_no 3)),
      (quiet_world, WorkerDoneEv 7),
      (quiet_world, WorkerDoneEv 8),
      (making 9, IntervalEv (interval_no 4))]"

section \<open>Agent supervisor (agent/agent.go)\<close>

definition CMD_QUEUE_SIZE :: nat where
  "CMD_QUEUE_SIZE = 10"

definition STATUS_QUEUE_SIZE :: nat where
  "STATUS_QUEUE_SIZE = 10"

definition MAX_ERRORS :: int where
  "MAX_ERRORS = 3"

text \<open>
  The API connector (\<open>pct.APIConnector\<close>) is a collaborator outside the sources. The
  model keeps the three values its getters return. Whether a \<open>Connect\<close> succeeds is an
  answer of the world below; a successful one makes the getters return the values it
  connected with, a failed one leaves them. No property below depends on that choice.
\<close>

record Api =
  api_Hostname :: string
  api_ApiKey :: string
  api_AgentUuid :: string

text \<open>The calls the agent makes on its collaborators and the goroutines it starts.\<close>

datatype AgentOp =
    ClientStart_op
  | GoConnect_op
  | GoCmdHandler_op
  | GoStatusHandler_op
  | Reply_op Reply
  | MakeStartLock_op
  | Getwd_op
  | WriteFile_op string string
  | ExecStart_op string
  | CmdHandlerStop_op
  | CmdHandlerWait_op
  | ServiceStop_op string
  | StatusHandlerStop_op
  | StatusHandlerWait_op
  | ApiConnect_op string string string
  | WriteAgentConfig_op string AgentCfg

text \<open>
  What the collaborators of the agent answer during one step: whether the reply channel
  takes a reply within its 20 seconds, the start lock, the working directory, the
  arguments of the process, the basedir, \<open>filepath.Join\<close>, the text of a command printed
  with \<open>%s\<close>, the file system, the start of the script, the services' \<open>Stop\<close>, the
  JSON decoder, the API connector's \<open>Connect\<close> and the writing of the config.
\<close>

record AgentWorld =
  aw_now :: Time
  aw_sendOK :: bool
  aw_MakeStartLock :: "error option"
  aw_Getwd :: "error + string"
  aw_Args :: "string list"
  aw_BasedirPath :: string
  aw_JoinPath :: "string \<Rightarrow> string \<Rightarrow> string"
  aw_cmdString :: "Cmd \<Rightarrow> string"
  aw_WriteFile :: "string \<Rightarrow> string \<Rightarrow> error option"
  aw_ExecStart :: "string \<Rightarrow> error option"
  aw_ServiceStop :: "string \<Rightarrow> error option"
  aw_Unmarshal :: "string \<Rightarrow> error + AgentCfg"
  aw_ApiConnect :: "string \<Rightarrow> string \<Rightarrow> string \<Rightarrow> error option"
  aw_WriteConfig :: "string \<Rightarrow> AgentCfg \<Rightarrow> error option"

text \<open>
  The agent: its config, the API connector, the names of its services, its status, what
  it has logged, the calls it has made, and the two queues to its handlers (channels of
  capacity \<open>CMD_QUEUE_SIZE\<close> and \<open>STATUS_QUEUE_SIZE\<close>).
\<close>

record Agent =
  a_config :: AgentCfg
  a_api :: Api
  a_services :: "string list"
  a_status :: Status
  a_logged :: "LogLine list"
  a_ops :: "AgentOp list"
  a_cmdChan :: "Cmd list"
  a_statusChan :: "Cmd list"

definition alog :: "LogLevel \<Rightarrow> LogArg list \<Rightarrow> Agent \<Rightarrow> Agent" where
  "alog lvl args a = a\<lparr>a_logged := a_logged a @ [(lvl, args)]\<rparr>"

definition acall :: "AgentOp \<Rightarrow> Agent \<Rightarrow> Agent" where
  "acall op a = a\<lparr>a_ops := a_ops a @ [op]\<rparr>"

definition aUpdate :: "string \<Rightarrow> StatusVal \<Rightarrow> Agent \<Rightarrow> Agent" where
  "aUpdate name v a = a\<lparr>a_status := (a_status a)(name \<mapsto> v)\<rparr>"

text \<open>
  \<open>cmd.Reply(nil, err)\<close> with an \<open>err\<close> that may be \<open>nil\<close>: the reply is built from the
  errors that are not \<open>nil\<close>.
\<close>

definition errs_of :: "error option \<Rightarrow> error list" where
  "errs_of err = (case err of None \<Rightarrow> [] | Some e \<Rightarrow> [e])"

text \<open>\<open>agent.reply\<close>: the reply is sent, or after 20 seconds logged as not sent.\<close>

definition reply :: "AgentWorld \<Rightarrow> Reply \<Rightarrow> Agent \<Rightarrow> Agent" where
  "reply aw r a =
     (if aw_sendOK aw then acall (Reply_op r) a
      else alog WARN [S ''Failed to send reply:'', R r] a)"

text \<open>
  The loop of \<open>agent.stop\<close> over the services, in the order of the list (Go does not
  specify the order in which it visits a map); \<open>log\<close> is skipped.
\<close>

fun stop_services :: "AgentWorld \<Rightarrow> Cmd \<Rightarrow> string list \<Rightarrow> Agent \<Rightarrow> Agent" where
  "stop_services aw cmd [] a = a"
| "stop_services aw cmd (service # rest) a =
     stop_services aw cmd rest
       (if service = ''log'' then a
        else
          (let a1 = acall (ServiceStop_op service)
                      (aUpdate ''agent'' (Re (''Stopping '' @ service) cmd)
                         (alog INFO [S (''Stopping '' @ service)] a))
           in case aw_ServiceStop aw service of
                Some err \<Rightarrow> alog WARN [E err] a1
              | None \<Rightarrow> a1))"

definition agent_stop :: "AgentWorld \<Rightarrow> Agent \<Rightarrow> Agent" where
  "agent_stop aw a0 =
     (let cmd = \<lparr>Id_c = '''', Ts_c = aw_now aw, User_c = ''agent'', Service_c = '''',
                 Cmd_c = '''', Data_c = ''''\<rparr>;
          a1 = acall CmdHandlerWait_op
                 (acall CmdHandlerStop_op
                    (aUpdate ''agent'' (Re ''Stopping cmdHandler'' cmd)
                       (alog INFO [S ''Stopping cmdHandler''] a0)));
          a2 = stop_services aw cmd (a_services a1) a1
      in acall StatusHandlerWait_op
           (acall StatusHandlerStop_op
              (aUpdate ''agent'' (Re ''Stopping statusHandler'' cmd)
                 (alog INFO [S ''Stopping statusHandler''] a2))))"

text \<open>
  What \<open>Run\<close> receives in its \<open>select\<close>: a command from the API, the crash of one of the
  two handlers, an error of the transport, or a change of the connection.
\<close>

datatype AgentEvent =
    CmdEv Cmd
  | CmdHandlerCrashEv
  | StatusHandlerCrashEv
  | ErrorEv error
  | ConnectEv bool

text \<open>
  \<open>Run\<close> after one iteration: it goes on, with the agent and its two error counters, it
  has returned, or it has panicked (nothing in \<open>Run\<close> recovers a panic). The deferred
  debug line \<open>Run:return\<close> is logged in the last two cases.
\<close>

datatype AgentRun = Running Agent int int | Returned Agent | Panicked panic Agent

definition run_returns :: "Agent \<Rightarrow> Agent" where
  "run_returns a = alog DEBUG [S ''Run:return''] a"

text \<open>The branch of \<open>Run\<close> for the command \<open>Restart\<close>.\<close>

definition Run_restart :: "AgentWorld \<Rightarrow> Agent \<Rightarrow> int \<Rightarrow> int \<Rightarrow> Cmd \<Rightarrow> AgentRun" where
  "Run_restart aw a0 cmdHandlerErrors statusHandlerErrors cmd =
     (let a1 = acall MakeStartLock_op
                 (aUpdate ''agent'' (Re ''Restarting'' cmd) (alog DEBUG [S ''cmd:restart''] a0))
      in case aw_MakeStartLock aw of
           Some err \<Rightarrow>
             Running (reply aw (mkReply cmd NoData [err]) a1)
               cmdHandlerErrors statusHandlerErrors
         | None \<Rightarrow>
             (let a2 = acall Getwd_op a1;
                  (cwd, a3) =
                    (case aw_Getwd aw of
                       Inl err \<Rightarrow> ('''', reply aw (mkReply cmd NoData [err]) a2)
                     | Inr dir \<Rightarrow> (dir, a2))
              in case aw_Args aw of
                   [] \<Rightarrow> Panicked IndexOutOfRange (run_returns a3)
                 | arg0 # args \<Rightarrow>
                     (let comment =
                            ''This script was created by percona-agent in response to ''
                              @ ''this Restart command:'' @ [CHR 0x0A] @ ''# ''
                              @ aw_cmdString aw cmd @ [CHR 0x0A] @ ''# It is safe to delete.'';
                          sh = ''#!/bin/sh'' @ [CHR 0x0A] @ ''# '' @ comment @ [CHR 0x0A]
                                 @ ''cd '' @ cwd @ [CHR 0x0A]
                                 @ ''./'' @ arg0 @ '' '' @ Join args '' '' @ '' >> ''
                                 @ aw_BasedirPath aw @ ''/percona-agent.log 2>&1 &''
                                 @ [CHR 0x0A];
                          startScript = aw_JoinPath aw (aw_BasedirPath aw) ''start'';
                          a4 = acall (WriteFile_op startScript sh) a3;
                          a5 = (case aw_WriteFile aw startScript sh of
                                  Some err \<Rightarrow> reply aw (mkReply cmd NoData [err]) a4
                                | None \<Rightarrow> a4);
                          a6 = acall (ExecStart_op startScript) (alog DEBUG [S ''Restart:sh''] a5);
                          a7 = reply aw (mkReply cmd NoData (errs_of (aw_ExecStart aw startScript)))
                                 a6
                      in Returned (run_returns (alog DEBUG [S ''Restart:done''] a7)))))"

text \<open>
  One iteration of \<open>Run\<close>: the debug line and the status at its top, then the branch of
  the \<open>select\<close> for what was received.
\<close>

definition Run_step :: "AgentWorld \<Rightarrow> Agent \<Rightarrow> int \<Rightarrow> int \<Rightarrow> AgentEvent \<Rightarrow> AgentRun" where
  "Run_step aw a0 cmdHandlerErrors statusHandlerErrors ev =
     (let a = aUpdate ''agent'' (Str ''Idle'') (alog DEBUG [S ''wait''] a0)
      in case ev of
           CmdEv cmd \<Rightarrow>
             (if Cmd_c cmd = ''Abort'' then Panicked AbortCmd (run_returns a)
              else if Cmd_c cmd = ''Restart'' then
                Run_restart aw a cmdHandlerErrors statusHandlerErrors cmd
              else if Cmd_c cmd = ''Stop'' then
                (let a1 = aUpdate ''agent'' (Re ''Stopping'' cmd)
                            (alog INFO [S ''Stopping'', C cmd] (alog DEBUG [S ''cmd:stop''] a));
                     a2 = reply aw (mkReply cmd NoData []) (agent_stop aw a1)
                 in Returned
                      (run_returns
                         (aUpdate ''agent'' (Re ''Stopped'' cmd)
                            (alog INFO [S ''Stopped'', C cmd] a2))))
              else if Cmd_c cmd = ''Status'' then
                (let a1 = aUpdate ''agent'' (Re ''Queueing'' cmd)
                            (alog DEBUG [S ''cmd:status''] a)
                 in if length (a_statusChan a1) < STATUS_QUEUE_SIZE then
                      Running (a1\<lparr>a_statusChan := a_statusChan a1 @ [cmd]\<rparr>)
                        cmdHandlerErrors statusHandlerErrors
                    else
                      Running
                        (reply aw
                           (mkReply cmd NoData
                              [QueueFullError (Cmd_c cmd) ''statusQueue'' STATUS_QUEUE_SIZE])
                           a1)
                        cmdHandlerErrors statusHandlerErrors)
              else
                (let a1 = aUpdate ''agent'' (Re ''Queueing'' cmd) (alog DEBUG [S ''cmd''] a)
                 in if length (a_cmdChan a1) < CMD_QUEUE_SIZE then
                      Running (a1\<lparr>a_cmdChan := a_cmdChan a1 @ [cmd]\<rparr>)
                        cmdHandlerErrors statusHandlerErrors
                    else
                      Running
                        (reply aw
                           (mkReply cmd NoData
                              [QueueFullError (Cmd_c cmd) ''cmdQueue'' CMD_QUEUE_SIZE])
                           a1)
                        cmdHandlerErrors statusHandlerErrors))
         | CmdHandlerCrashEv \<Rightarrow>
             (let cmdHandlerErrors' = cmdHandlerErrors + 1
              in if cmdHandlerErrors' < MAX_ERRORS then
                   Running (acall GoCmdHandler_op
                              (alog ERROR [S ''cmdHandler crashed, restarting''] a))
                     cmdHandlerErrors' statusHandlerErrors
                 else
                   Running (alog FATAL [S ''Too many cmdHandler errors''] a)
                     cmdHandlerErrors' statusHandlerErrors)
         | StatusHandlerCrashEv \<Rightarrow>
             (let statusHandlerErrors' = statusHandlerErrors + 1
              in if statusHandlerErrors' < MAX_ERRORS then
                   Running (acall GoStatusHandler_op
                              (alog ERROR [S ''statusHandler crashed, restarting''] a))
                     cmdHandlerErrors statusHandlerErrors'
                 else
                   Running (alog FATAL [S ''Too many statusHandler errors''] a)
                     cmdHandlerErrors statusHandlerErrors')
         | ErrorEv err \<Rightarrow>
             Running (alog WARN [E err] a) cmdHandlerErrors statusHandlerErrors
         | ConnectEv isConnected \<Rightarrow>
             (if isConnected then Running (alog INFO [S ''Connected to API''] a) 0 0
              else
                Running (acall GoConnect_op (alog WARN [S ''Lost connection to API''] a))
                  cmdHandlerErrors statusHandlerErrors))"

fun Run_loop :: "Agent \<Rightarrow> int \<Rightarrow> int \<Rightarrow> (AgentWorld \<times> AgentEvent) list \<Rightarrow> AgentRun" where
  "Run_loop a ce se [] = Running a ce se"
| "Run_loop a ce se ((aw, ev) # evs) =
     (case Run_step aw a ce se ev of
        Running a' ce' se' \<Rightarrow> Run_loop a' ce' se' evs
      | Returned a' \<Rightarrow> Returned a'
      | Panicked p a' \<Rightarrow> Panicked p a')"

text \<open>
  \<open>Run\<close> from its start: the client is started, the connection and the two handlers are
  started in goroutines of their own, and both counters are 0.
\<close>

definition Run :: "Agent \<Rightarrow> (AgentWorld \<times> AgentEvent) list \<Rightarrow> AgentRun" where
  "Run a evs =
     Run_loop
       (alog INFO [S ''Started'']
          (acall GoStatusHandler_op
             (acall GoCmdHandler_op
                (acall GoConnect_op
                   (acall ClientStart_op (alog DEBUG [S ''Run:call''] a))))))
       0 0 evs"

text \<open>
  The two blocks of \<open>handleSetConfig\<close> that change the API key and the API hostname.
  Each takes and returns the config being built (\<open>finalConfig\<close>), the errors so far and
  the agent. The error texts are built from \<open>err.Error()\<close>.
\<close>

definition change_api_key ::
  "AgentWorld \<Rightarrow> AgentCfg \<Rightarrow> AgentCfg \<times> error list \<times> Agent
     \<Rightarrow> AgentCfg \<times> error list \<times> Agent" where
  "change_api_key aw newConfig st =
     (case st of
        (finalConfig, errs, a) \<Rightarrow>
          (if ApiKey newConfig \<noteq> '''' \<and> ApiKey newConfig \<noteq> ApiKey finalConfig then
             (let a' = acall (ApiConnect_op (api_Hostname (a_api a)) (ApiKey newConfig)
                                (api_AgentUuid (a_api a)))
                         (alog WARN [S ''Changing API key from'', S (ApiKey finalConfig),
                                     S ''to'', S (ApiKey newConfig)] a)
              in case aw_ApiConnect aw (api_Hostname (a_api a)) (ApiKey newConfig)
                        (api_AgentUuid (a_api a)) of
                   Some err \<Rightarrow>
                     (finalConfig,
                      errs @ [ErrorString (''agent.api.Connect:ApiKey:'' @ Error_text err)],
                      a')
                 | None \<Rightarrow>
                     (finalConfig\<lparr>ApiKey := ApiKey newConfig\<rparr>, errs,
                      a'\<lparr>a_api := (a_api a')\<lparr>api_ApiKey := ApiKey newConfig\<rparr>\<rparr>))
           else (finalConfig, errs, a)))"

definition change_api_hostname ::
  "AgentWorld \<Rightarrow> AgentCfg \<Rightarrow> AgentCfg \<times> error list \<times> Agent
     \<Rightarrow> AgentCfg \<times> error list \<times> Agent" where
  "change_api_hostname aw newConfig st =
     (case st of
        (finalConfig, errs, a) \<Rightarrow>
          (if ApiHostname newConfig \<noteq> ''''
              \<and> ApiHostname newConfig \<noteq> ApiHostname finalConfig then
             (let a' = acall (ApiConnect_op (ApiHostname newConfig) (api_ApiKey (a_api a))
                                (api_AgentUuid (a_api a)))
                         (alog WARN [S ''Changing API host from'', S (ApiHostname finalConfig),
                                     S ''to'', S (ApiHostname newConfig)] a)
              in case aw_ApiConnect aw (ApiHostname newConfig) (api_ApiKey (a_api a))
                        (api_AgentUuid (a_api a)) of
                   Some err \<Rightarrow>
                     (finalConfig,
                      errs @ [ErrorString (''agent.api.Connect:ApiHostname:''
                                             @ Error_text err)],
                      a')
                 | None \<Rightarrow>
                     (finalConfig\<lparr>ApiHostname := ApiHostname newConfig\<rparr>, errs,
                      a'\<lparr>a_api := (a_api a')\<lparr>api_Hostname := ApiHostname newConfig\<rparr>\<rparr>))
           else (finalConfig, errs, a)))"

text \<open>
  \<open>handleSetConfig\<close>: the data of the reply, the errors, and the agent after the call.
  \<open>finalConfig\<close> starts as a copy of the current config; the config built is written and
  becomes the agent's config.
\<close>

definition handleSetConfig ::
  "AgentWorld \<Rightarrow> Agent \<Rightarrow> Cmd \<Rightarrow> ReplyData \<times> error list \<times> Agent" where
  "handleSetConfig aw a0 cmd =
     (let a1 = alog INFO [C cmd] (aUpdate ''agent-cmd-handler'' (Re ''SetConfig'' cmd) a0)
      in case aw_Unmarshal aw (Data_c cmd) of
           Inl err \<Rightarrow> (NoData, [err], a1)
         | Inr newConfig \<Rightarrow>
             (case change_api_hostname aw newConfig
                     (change_api_key aw newConfig (a_config a1, [], a1)) of
                (finalConfig, errs, a3) \<Rightarrow>
                  (let a4 = acall (WriteAgentConfig_op ''agent'' finalConfig) a3;
                       errs' = (case aw_WriteConfig aw ''agent'' finalConfig of
                                  Some err \<Rightarrow>
                                    errs @ [ErrorString (''agent.WriteConfig:''
                                                           @ Error_text err)]
                                | None \<Rightarrow> errs)
                   in (OneConfig finalConfig, errs', a4\<lparr>a_config := finalConfig\<rparr>))))"

text \<open>
  The two mutations \<open>handleSetConfig\<close> may attempt, in the words of the specification: a
  field of the new config is applied when it is neither missing (empty) nor the current
  value, by reconnecting the API connector; \<open>key_result\<close> and \<open>host_result\<close> are what
  the connector answers to the attempt (\<open>None\<close> is success).
\<close>

definition key_attempted :: "Agent \<Rightarrow> AgentCfg \<Rightarrow> bool" where
  "key_attempted a new \<longleftrightarrow> ApiKey new \<noteq> '''' \<and> ApiKey new \<noteq> ApiKey (a_config a)"

definition key_result :: "AgentWorld \<Rightarrow> Agent \<Rightarrow> AgentCfg \<Rightarrow> error option" where
  "key_result aw a new =
     aw_ApiConnect aw (api_Hostname (a_api a)) (ApiKey new) (api_AgentUuid (a_api a))"

definition host_attempted :: "Agent \<Rightarrow> AgentCfg \<Rightarrow> bool" where
  "host_attempted a new \<longleftrightarrow>
     ApiHostname new \<noteq> '''' \<and> ApiHostname new \<noteq> ApiHostname (a_config a)"

definition host_result :: "AgentWorld \<Rightarrow> Agent \<Rightarrow> AgentCfg \<Rightarrow> error option" where
  "host_result aw a new =
     aw_ApiConnect aw (ApiHostname new)
       (if key_attempted a new \<and> key_result aw a new = None then ApiKey new
        else api_ApiKey (a_api a))
       (api_AgentUuid (a_api a))"

text \<open>
  An agent, a \<open>SetConfig\<close> command, and a world in which the payload decodes to a config
  with a new key and a new host, the connector refuses the new key and accepts the new
  host, and the config is written.
\<close>

definition some_agent :: Agent where
  "some_agent =
     \<lparr>a_config = \<lparr>ApiHostname = ''cloud-api.percona.com'', ApiKey = ''123'',
                   AgentUuid = ''abc-123-def'', Links = []\<rparr>,
      a_api = \<lparr>api_Hostname = ''cloud-api.percona.com'', api_ApiKey = ''123'',
                api_AgentUuid = ''abc-123-def''\<rparr>,
      a_services = [''qan'', ''log''],
      a_status = [''agent'' \<mapsto> Str '''', ''agent-cmd-handler'' \<mapsto> Str ''''],
      a_logged = [], a_ops = [], a_cmdChan = [], a_statusChan = []\<rparr>"

definition set_config_cmd :: Cmd where
  "set_config_cmd =
     \<lparr>Id_c = ''5'', Ts_c = at_sec 1000, User_c = ''user'', Service_c = ''agent'',
      Cmd_c = ''SetConfig'', Data_c = ''{}''\<rparr>"

definition partial_world :: AgentWorld where
  "partial_world =
     \<lparr>aw_now = at_sec 1000, aw_sendOK = True, aw_MakeStartLock = None,
      aw_Getwd = Inr ''/usr/local/percona/agent'', aw_Args = [''bin/percona-agent''],
      aw_BasedirPath = ''/usr/local/percona/agent'',
      aw_JoinPath = (\<lambda>dir name. dir @ ''/'' @ name),
      aw_cmdString = (\<lambda>cmd. Cmd_c cmd),
      aw_WriteFile = (\<lambda>name text. None),
      aw_ExecStart = (\<lambda>name. None),
      aw_ServiceStop = (\<lambda>name. None),
      aw_Unmarshal = (\<lambda>bytes. Inr \<lparr>ApiHostname = ''localhost'', ApiKey = ''999'',
                                     AgentUuid = '''', Links = []\<rparr>),
      aw_ApiConnect = (\<lambda>host key uuid.
                         if key = ''999'' then Some (ErrorString ''Unauthorized'') else None),
      aw_WriteConfig = (\<lambda>name cfg. None)\<rparr>"

text \<open>
  The same world with a payload that leaves the host out and repeats the current key, and
  the two configs the payloads decode to.
\<close>

definition new_key_and_host :: AgentCfg where
  "new_key_and_host = \<lparr>ApiHostname = ''localhost'', ApiKey = ''999'', AgentUuid = '''', Links = []\<rparr>"

definition nothing_new :: AgentCfg where
  "nothing_new = \<lparr>ApiHostname = '''', ApiKey = ''123'', AgentUuid = '''', Links = []\<rparr>"

definition keeping_world :: AgentWorld where
  "keeping_world = partial_world\<lparr>aw_Unmarshal := (\<lambda>bytes. Inr nothing_new)\<rparr>"

section \<open>Binary64 arithmetic\<close>











section \<open>Perfschema worker (qan/perfschema/worker.go)\<close>

text \<open>
  A row of the digest table. \<open>uint\<close> is the 64-bit unsigned integer of the platforms the
  agent is built for.
\<close>

type_synonym uint64 = "64 word"

record DigestRow =
  Digest :: string
  DigestText :: string
  SumTimerWait :: uint64
  MinTimerWait :: uint64
  AvgTimerWait :: uint64
  MaxTimerWait :: uint64
  SumLockTime :: uint64
  SumRowsAffected :: uint64
  SumRowsSent :: uint64
  SumRowsExamined :: uint64
  SumSelectFullJoin :: uint64
  SumSelectScan :: uint64
  SumSortMergePasses :: uint64
  SumCreatedTmpDiskTables :: uint64
  SumCreatedTmpTables :: uint64
  CountStar :: uint64
  FirstSeen :: Time
  LastSeen :: Time












text \<open>
  \<open>strings.ToUpper\<close> on the letters of ASCII. A digest is a string of hexadecimal
  digits; a byte outside ASCII, which Go would decode as part of a UTF-8 character, is
  left as it is by the model.
\<close>

definition to_upper :: "char \<Rightarrow> char" where
  "to_upper c =
     (case map_of (zip ''abcdefghijklmnopqrstuvwxyz'' ''ABCDEFGHIJKLMNOPQRSTUVWXYZ'') c of
        Some u \<Rightarrow> u
      | None \<Rightarrow> c)"

definition ToUpper :: "string \<Rightarrow> string" where
  "ToUpper s = map to_upper s"





text \<open>Three crashes of the command handler in a row, with no connect in between.\<close>

definition three_crashes :: "(AgentWorld \<times> AgentEvent) list" where
  "three_crashes =
     [(partial_world, CmdHandlerCrashEv), (partial_world, CmdHandlerCrashEv),
      (partial_world, CmdHandlerCrashEv)]"

text \<open>How often a call occurs among the calls an agent has made.\<close>

definition times_called :: "AgentOp \<Rightarrow> Agent \<Rightarrow> nat" where
  "times_called op a = length (filter (\<lambda>x. x = op) (a_ops a))"

text \<open>The agent and the two counters of a \<open>Run\<close> that goes on; nothing if it has ended.\<close>

definition still_running :: "AgentRun \<Rightarrow> (Agent \<times> int \<times> int) option" where
  "still_running r =
     (case r of
        Running a cmdHandlerErrors statusHandlerErrors \<Rightarrow>
          Some (a, cmdHandlerErrors, statusHandlerErrors)
      | Returned a \<Rightarrow> None
      | Panicked p a \<Rightarrow> None)"

chapter \<open>Properties\<close>

section \<open>Restart detection\<close>

lemma sint_plus_in_range:
  fixes a b :: int64
  assumes "int64_range (sint a + sint b)"
  shows "sint (a + b) = sint a + sint b"
  using assms
  by (simp add: sint_word_ariths int64_range_def signed_take_bit_int_eq_self)

lemma sint_minus_in_range:
  fixes a b :: int64
  assumes "int64_range (sint a - sint b)"
  shows "sint (a - b) = sint a - sint b"
  using assms
  by (simp add: sint_word_ariths int64_range_def signed_take_bit_int_eq_self)

lemma check_result:
  "fst (CheckIfMysqlRestarted m cur now1 now2)
     \<longleftrightarrow> cur <s lastUptime m + (Unix now1 - Unix (lastUptimeCheck m))"
  by (simp add: CheckIfMysqlRestarted_def Let_def)

lemma check_state:
  "snd (CheckIfMysqlRestarted m cur now1 now2)
     = m\<lparr>lastUptime := cur, lastUptimeCheck := now2\<rparr>"
  by (simp add: CheckIfMysqlRestarted_def Let_def)

lemma check_result_int:
  assumes "int64_range (sint (Unix now1) - sint (Unix (lastUptimeCheck m)))"
      and "int64_range (sint (lastUptime m) + (sint (Unix now1) - sint (Unix (lastUptimeCheck m))))"
  shows "fst (CheckIfMysqlRestarted m cur now1 now2)
     \<longleftrightarrow> sint cur < sint (lastUptime m) + (sint (Unix now1) - sint (Unix (lastUptimeCheck m)))"
proof -
  have e: "sint (Unix now1 - Unix (lastUptimeCheck m))
             = sint (Unix now1) - sint (Unix (lastUptimeCheck m))"
    using assms(1) by (rule sint_minus_in_range)
  have "sint (lastUptime m + (Unix now1 - Unix (lastUptimeCheck m)))
          = sint (lastUptime m) + (sint (Unix now1) - sint (Unix (lastUptimeCheck m)))"
    using assms(2) sint_plus_in_range [of "lastUptime m" "Unix now1 - Unix (lastUptimeCheck m)"]
    by (simp add: e)
  then show ?thesis
    by (simp add: check_result word_sless_alt)
qed

lemma uptime_drop_is_restart:
  assumes "0 \<le> sint e" and "sint e < 2 ^ 62"
  shows "fst (CheckIfMysqlRestarted \<lparr>lastUptime = 3600, lastUptimeCheck = at_sec t\<rparr>
                10 (at_sec (t + e)) now2)"
proof -
  have "int64_range (sint (3600 :: int64) + sint e)"
    using assms by (simp add: int64_range_def)
  then have "sint (3600 + e) = sint (3600 :: int64) + sint e"
    by (rule sint_plus_in_range)
  then show ?thesis
    using assms by (simp add: check_result word_sless_alt Unix_def at_sec_def)
qed

lemma uptime_ahead_of_clock:
  "\<not> fst (CheckIfMysqlRestarted \<lparr>lastUptime = 60, lastUptimeCheck = at_sec t\<rparr>
              120 (at_sec (t + 30)) now2)"
  by (simp add: check_result word_sless_alt Unix_def at_sec_def)

lemma uptime_behind_clock:
  "fst (CheckIfMysqlRestarted \<lparr>lastUptime = 60, lastUptimeCheck = at_sec t\<rparr>
          120 (at_sec (t + 120)) now2)"
  by (simp add: check_result word_sless_alt Unix_def at_sec_def)

text \<open>
  Claim C2. \<open>CheckIfMysqlRestarted\<close> returns true exactly when the current uptime is below
  the last uptime plus the seconds elapsed since the last check. The first conjunct is the
  rule in Go's own \<open>int64\<close> arithmetic, for every input; the second is the same rule over
  the integers, for the inputs whose difference and sum fit an \<open>int64\<close>. The last three
  are the boundaries of the specification: an uptime that falls from 3600 to 10 is a
  restart whatever non-negative time has elapsed, 60 to 120 within 30 seconds is none,
  60 to 120 within 120 seconds is one.
\<close>

theorem CheckIfMysqlRestarted_rule:
  "(fst (CheckIfMysqlRestarted m cur now1 now2)
      \<longleftrightarrow> cur <s lastUptime m + (Unix now1 - Unix (lastUptimeCheck m)))
   \<and> (int64_range (sint (Unix now1) - sint (Unix (lastUptimeCheck m)))
        \<and> int64_range (sint (lastUptime m)
              + (sint (Unix now1) - sint (Unix (lastUptimeCheck m))))
      \<longrightarrow> (fst (CheckIfMysqlRestarted m cur now1 now2)
            \<longleftrightarrow> sint cur < sint (lastUptime m)
                  + (sint (Unix now1) - sint (Unix (lastUptimeCheck m)))))
   \<and> (0 \<le> sint e \<and> sint e < 2 ^ 62
      \<longrightarrow> fst (CheckIfMysqlRestarted \<lparr>lastUptime = 3600, lastUptimeCheck = at_sec t\<rparr>
                  10 (at_sec (t + e)) now2))
   \<and> \<not> fst (CheckIfMysqlRestarted \<lparr>lastUptime = 60, lastUptimeCheck = at_sec t\<rparr>
                120 (at_sec (t + 30)) now2)
   \<and> fst (CheckIfMysqlRestarted \<lparr>lastUptime = 60, lastUptimeCheck = at_sec t\<rparr>
            120 (at_sec (t + 120)) now2)"
  using check_result check_result_int uptime_drop_is_restart uptime_ahead_of_clock
    uptime_behind_clock
  by blast

theorem CheckIfMysqlRestarted_rule_witness:
  "int64_range (sint (Unix (at_sec 1120)) - sint (Unix (at_sec 1000)))
   \<and> int64_range (sint (60 :: int64) + (sint (Unix (at_sec 1120)) - sint (Unix (at_sec 1000))))
   \<and> fst (CheckIfMysqlRestarted \<lparr>lastUptime = 60, lastUptimeCheck = at_sec 1000\<rparr>
            120 (at_sec 1120) (at_sec 1120))
   \<and> sint (120 :: int64) < sint (60 :: int64)
        + (sint (Unix (at_sec 1120)) - sint (Unix (at_sec 1000)))
   \<and> 0 \<le> sint (5 :: int64) \<and> sint (5 :: int64) < 2 ^ 62
   \<and> fst (CheckIfMysqlRestarted \<lparr>lastUptime = 3600, lastUptimeCheck = at_sec 1000\<rparr>
            10 (at_sec (1000 + 5)) (at_sec 1120))"
  using CheckIfMysqlRestarted_rule
    [where m = "\<lparr>lastUptime = 60, lastUptimeCheck = at_sec 1000\<rparr>" and cur = 120
       and ?now1.0 = "at_sec 1120" and ?now2.0 = "at_sec 1120" and e = 5 and t = 1000]
  by (simp add: int64_range_def Unix_def at_sec_def)

section \<open>The monitor takes a new baseline at every poll\<close>

lemma second_check_result:
  "fst (CheckIfMysqlRestarted (snd (CheckIfMysqlRestarted m c1 a1 a2)) c2 b1 b2)
     \<longleftrightarrow> c2 <s c1 + (Unix b1 - Unix a2)"
  by (simp add: check_result check_state)

lemma second_check_quiet:
  assumes "int64_range (sint (Unix b1) - sint (Unix a2))"
      and "int64_range (sint c1 + (sint (Unix b1) - sint (Unix a2)))"
      and "sint c1 + (sint (Unix b1) - sint (Unix a2)) \<le> sint c2"
  shows "\<not> fst (CheckIfMysqlRestarted (snd (CheckIfMysqlRestarted m c1 a1 a2)) c2 b1 b2)"
  using assms
    check_result_int [of b1 "snd (CheckIfMysqlRestarted m c1 a1 a2)" c2 b2]
  by (simp add: check_state)

text \<open>
  Claim C10. Every call stores the uptime just polled and the clock reading \<open>now2\<close>,
  whatever it returns. So the next check is decided by the values of this poll alone and
  not by the state before it: when the uptime of the next poll has kept up with the
  clock since this poll, the next check reports no restart, also when this one did.
\<close>

theorem CheckIfMysqlRestarted_rebaselines:
  "snd (CheckIfMysqlRestarted m c1 a1 a2) = m\<lparr>lastUptime := c1, lastUptimeCheck := a2\<rparr>
   \<and> (fst (CheckIfMysqlRestarted (snd (CheckIfMysqlRestarted m c1 a1 a2)) c2 b1 b2)
        \<longleftrightarrow> c2 <s c1 + (Unix b1 - Unix a2))
   \<and> (int64_range (sint (Unix b1) - sint (Unix a2))
        \<and> int64_range (sint c1 + (sint (Unix b1) - sint (Unix a2)))
        \<and> sint c1 + (sint (Unix b1) - sint (Unix a2)) \<le> sint c2
      \<longrightarrow> \<not> fst (CheckIfMysqlRestarted (snd (CheckIfMysqlRestarted m c1 a1 a2)) c2 b1 b2))"
  using check_state second_check_result second_check_quiet
  by blast

theorem CheckIfMysqlRestarted_rebaselines_witness:
  "fst (CheckIfMysqlRestarted \<lparr>lastUptime = 60, lastUptimeCheck = at_sec 0\<rparr>
          120 (at_sec 120) (at_sec 120))
   \<and> int64_range (sint (Unix (at_sec 150)) - sint (Unix (at_sec 120)))
   \<and> int64_range (sint (120 :: int64) + (sint (Unix (at_sec 150)) - sint (Unix (at_sec 120))))
   \<and> sint (120 :: int64) + (sint (Unix (at_sec 150)) - sint (Unix (at_sec 120)))
        \<le> sint (150 :: int64)
   \<and> \<not> fst (CheckIfMysqlRestarted
              (snd (CheckIfMysqlRestarted \<lparr>lastUptime = 60, lastUptimeCheck = at_sec 0\<rparr>
                      120 (at_sec 120) (at_sec 120)))
              150 (at_sec 150) (at_sec 150))"
  using CheckIfMysqlRestarted_rebaselines
    [where m = "\<lparr>lastUptime = 60, lastUptimeCheck = at_sec 0\<rparr>" and ?c1.0 = 120
       and ?a1.0 = "at_sec 120" and ?a2.0 = "at_sec 120" and ?c2.0 = 150
       and ?b1.0 = "at_sec 150" and ?b2.0 = "at_sec 150"]
  by (simp add: int64_range_def Unix_def at_sec_def CheckIfMysqlRestarted_def word_sless_alt)

section \<open>Validation of the QAN configuration\<close>

lemma ValidateConfig_config:
  "fst (ValidateConfig c)
     = (if CollectFrom c = '''' then c\<lparr>CollectFrom := ''slowlog''\<rparr> else c)"
  by (simp add: ValidateConfig_def Let_def)

lemma ValidateConfig_nil_iff:
  "snd (ValidateConfig c) = None \<longleftrightarrow> within_bounds c"
  by (auto simp add: ValidateConfig_def within_bounds_def Let_def)

text \<open>
  Claim C3. \<open>ValidateConfig\<close> returns \<open>nil\<close> exactly for the configs within the bounds:
  \<open>CollectFrom\<close> one of \<open>slowlog\<close>, \<open>perfschema\<close> or unset, \<open>Start\<close> and \<open>Stop\<close>
  non-empty, \<open>MaxWorkers\<close> in 1..4, \<open>Interval\<close> in 1..3600, \<open>WorkerRunTime\<close> in
  1..1200; every other config yields an error. An unset \<open>CollectFrom\<close> is rewritten to
  \<open>slowlog\<close> and nothing else of the config is changed.
\<close>

theorem ValidateConfig_exact:
  "(snd (ValidateConfig c) = None \<longleftrightarrow>
      (CollectFrom c = ''slowlog'' \<or> CollectFrom c = ''perfschema'' \<or> CollectFrom c = '''')
      \<and> Start c \<noteq> [] \<and> Stop c \<noteq> []
      \<and> 1 \<le> MaxWorkers c \<and> MaxWorkers c \<le> 4
      \<and> 1 \<le> Interval c \<and> Interval c \<le> 3600
      \<and> 1 \<le> WorkerRunTime c \<and> WorkerRunTime c \<le> 1200)
   \<and> (\<not> within_bounds c \<longrightarrow> (\<exists>e. snd (ValidateConfig c) = Some e))
   \<and> (CollectFrom c = '''' \<longrightarrow> fst (ValidateConfig c) = c\<lparr>CollectFrom := ''slowlog''\<rparr>)
   \<and> (CollectFrom c \<noteq> '''' \<longrightarrow> fst (ValidateConfig c) = c)"
proof -
  have "snd (ValidateConfig c) = None \<longleftrightarrow> within_bounds c"
    by (rule ValidateConfig_nil_iff)
  moreover have "\<not> within_bounds c \<longrightarrow> (\<exists>e. snd (ValidateConfig c) = Some e)"
    using ValidateConfig_nil_iff [of c] by (cases "snd (ValidateConfig c)") simp_all
  ultimately show ?thesis
    by (simp add: ValidateConfig_config within_bounds_def)
qed

theorem ValidateConfig_exact_witness:
  "CollectFrom default_config = ''''
   \<and> snd (ValidateConfig default_config) = None
   \<and> fst (ValidateConfig default_config) = default_config\<lparr>CollectFrom := ''slowlog''\<rparr>
   \<and> \<not> within_bounds (default_config\<lparr>CollectFrom := ''perfschema'', MaxWorkers := 5\<rparr>)
   \<and> CollectFrom (default_config\<lparr>CollectFrom := ''perfschema'', MaxWorkers := 5\<rparr>) \<noteq> ''''
   \<and> (\<exists>e. snd (ValidateConfig (default_config\<lparr>CollectFrom := ''perfschema'',
                                                  MaxWorkers := 5\<rparr>)) = Some e)
   \<and> fst (ValidateConfig (default_config\<lparr>CollectFrom := ''perfschema'', MaxWorkers := 5\<rparr>))
       = default_config\<lparr>CollectFrom := ''perfschema'', MaxWorkers := 5\<rparr>"
  using ValidateConfig_exact [of default_config]
    ValidateConfig_exact [of "default_config\<lparr>CollectFrom := ''perfschema'', MaxWorkers := 5\<rparr>"]
  by (simp add: default_config_def within_bounds_def)

section \<open>The log relay while offline and at reconnect\<close>


lemma show_nat_digit: "n < 10 \<Longrightarrow> show_nat n = [''0123456789'' ! n]"
  by (subst show_nat.simps) simp

lemma clear_slots_step:
  "i < n \<Longrightarrow> clear_slots n i buf =
     (case slice_set buf i None of Inl p \<Rightarrow> Inl p | Inr buf' \<Rightarrow> clear_slots n (i + 1) buf')"
  by (subst clear_slots.simps) simp

lemma clear_slots_done: "\<not> i < n \<Longrightarrow> clear_slots n i buf = Inr buf"
  by (subst clear_slots.simps) simp

lemma resend_first_step:
  "i < n \<Longrightarrow> resend_first n i r =
     (case slice_get (firstBuf r) i of
           Inl p \<Rightarrow> Inl p
         | Inr None \<Rightarrow> resend_first n (i + 1) r
         | Inr (Some x) \<Rightarrow>
             (case send n r x False of
                Inl p \<Rightarrow> Inl p
              | Inr (Some err, r') \<Rightarrow> resend_first n (i + 1) r'
              | Inr (None, r') \<Rightarrow>
                  (case slice_set (firstBuf r') i None of
                     Inl p \<Rightarrow> Inl p
                   | Inr buf \<Rightarrow>
                       resend_first n (i + 1)
                         (r'\<lparr>firstBuf := buf, firstBufSize := firstBufSize r' - 1\<rparr>))))"
  by (subst resend_first.simps) simp

lemma resend_first_done: "\<not> i < n \<Longrightarrow> resend_first n i r = Inr r"
  by (subst resend_first.simps) simp

lemma resend_second_step:
  "i < n \<Longrightarrow> resend_second n i r =
     (case slice_get (secondBuf r) i of
           Inl p \<Rightarrow> Inl p
         | Inr None \<Rightarrow> resend_second n (i + 1) r
         | Inr (Some x) \<Rightarrow>
             (case send n r x False of
                Inl p \<Rightarrow> Inl p
              | Inr (Some err, r') \<Rightarrow> resend_second n (i + 1) r'
              | Inr (None, r') \<Rightarrow>
                  (case slice_set (secondBuf r') i None of
                     Inl p \<Rightarrow> Inl p
                   | Inr buf \<Rightarrow>
                       resend_second n (i + 1)
                         (r'\<lparr>secondBuf := buf, secondBufSize := secondBufSize r' - 1\<rparr>))))"
  by (subst resend_second.simps) simp

lemma resend_second_done: "\<not> i < n \<Longrightarrow> resend_second n i r = Inr r"
  by (subst resend_second.simps) simp

lemma buffered_seven:
  "buffer_all 2 (NewRelay 2 c w False) [a, b, c', d, e, f, g]
     = Inr ((NewRelay 2 c w False)\<lparr>firstBuf := [Some a, Some b], firstBufSize := 2,
              secondBuf := [Some g, None], secondBufSize := 1, lost := 4\<rparr>)"
  by (simp add: buffer_def NewRelay_def slice_set_def clear_slots_step clear_slots_done
        numeral_2_eq_2)

lemma sent_after_seven:
  "sent_after_reconnect 2 w now [a, b, c, d, e, f, g] = Inr [a, b, lost_entry w now 4, g]"
  unfolding sent_after_reconnect_def buffered_seven
  by (simp add: resend_def NewRelay_def resend_first_step resend_first_done
        resend_second_step resend_second_done send_def Send_def slice_get_def slice_set_def)

lemma lost_entry_4: "Msg (lost_entry w now 4) = ''Lost 4 log entries''"
  by (simp add: lost_entry_def show_int_def show_nat_digit)

text \<open>
  Claim C1, as the code has it. With a buffer size of 2, a relay that buffers seven entries
  \<open>a\<close> to \<open>g\<close> while offline sends at reconnect \<open>a\<close>, \<open>b\<close>, one entry
  \<open>Lost 4 log entries\<close> and \<open>g\<close>, every send succeeding: the first buffer in order,
  the tally of the entries dropped (\<open>c\<close>, \<open>d\<close>, \<open>e\<close> and \<open>f\<close>: the second buffer
  is thrown away whole each time an entry arrives while it is full), then the second
  buffer in order.
\<close>

theorem resend_after_seven_entries:
  "sent_after_reconnect 2 w now [a, b, c, d, e, f, g] = Inr [a, b, lost_entry w now 4, g]
   \<and> Msg (lost_entry w now 4) = ''Lost 4 log entries''"
  using sent_after_seven lost_entry_4 by simp

text \<open>
  The sequence of the specification's scenario, \<open>A\<close>, \<open>B\<close>, \<open>Lost 3 log entries\<close>,
  \<open>F\<close>, \<open>G\<close>, is not what the relay sends: the messages sent are \<open>A\<close>, \<open>B\<close>,
  \<open>Lost 4 log entries\<close>, \<open>G\<close>.
\<close>

theorem resend_scenario_counterexample:
  "map_sum id (map Msg)
     (sent_after_reconnect 2 4 (at_sec 0)
        [entry_of ''A'', entry_of ''B'', entry_of ''C'', entry_of ''D'', entry_of ''E'',
         entry_of ''F'', entry_of ''G''])
     = Inr [''A'', ''B'', ''Lost 4 log entries'', ''G'']
   \<and> map_sum id (map Msg)
     (sent_after_reconnect 2 4 (at_sec 0)
        [entry_of ''A'', entry_of ''B'', entry_of ''C'', entry_of ''D'', entry_of ''E'',
         entry_of ''F'', entry_of ''G''])
     \<noteq> Inr [''A'', ''B'', ''Lost 3 log entries'', ''F'', ''G'']"
  by (simp add: sent_after_seven lost_entry_4 entry_of_def)

section \<open>Starting a running manager, stopping a stopped one\<close>

lemma Update_twice:
  "Update n v (Update n v' m) = m\<lparr>status := (status m)(n \<mapsto> v)\<rparr>"
  by (simp add: Update_def)

lemma running_Update [simp]: "running (Update n v m) = running m"
  by (simp add: Update_def)

lemma Start_running:
  "running m \<Longrightarrow> Start_m w m = Inr (Some (ServiceIsRunningError ''qan''), m)"
  by (simp add: Start_m_def)

lemma Handle_start_running:
  assumes "running m" and "Cmd_c cmd = ''StartService''"
  shows "Handle_m w m cmd
           = Inr (mkReply cmd NoData [ServiceIsRunningError ''qan''],
                  m\<lparr>status := (status m)(''qan'' \<mapsto> Str ''Running'')\<rparr>)"
  using assms by (simp add: Handle_m_def Update_twice)

lemma running_error_text:
  "Error_r (mkReply cmd d [ServiceIsRunningError ''qan'']) = ''qan is running''"
  by (simp add: mkReply_def Error_text_def)

lemma Handle_start_ok_running:
  assumes "Cmd_c cmd = ''StartService''" and "Handle_m w m cmd = Inr (r, m')"
      and "Errors_r r = []"
  shows "running m'"
  using assms
  by (auto simp add: Handle_m_def Let_def mkReply_def Update_def call_def
           split: if_splits sum.splits option.splits prod.splits)

lemma first_start:
  "\<exists>m. Handle_m quiet_world NewManager start_cmd = Inr (mkReply start_cmd NoData [], m)
        \<and> running m \<and> config m = Some (default_config\<lparr>CollectFrom := ''slowlog''\<rparr>)"
  by (simp add: Handle_m_def start_def start_steps_def makeMySQLConn_def configureMySQL_def
        ValidateConfig_def default_config_def quiet_world_def start_cmd_def NewManager_def
        Update_def logf_def call_def Let_def)

lemma after_first_start:
  "Handle_m quiet_world NewManager start_cmd = Inr after_first_start
   \<and> fst after_first_start = mkReply start_cmd NoData []
   \<and> running (snd after_first_start)"
  using first_start by (auto simp add: after_first_start_def)

text \<open>
  Claim C6. On a running manager \<open>Start\<close> returns \<open>ServiceIsRunningError\<close> for \<open>qan\<close> and
  changes nothing. A \<open>StartService\<close> command to a running manager is answered with that
  error, whose text contains \<open>qan is running\<close>; the manager afterwards differs from the
  one before in its status entry \<open>qan\<close> only, so it is still running, with the same
  config, and no collaborator has been called. And when a first \<open>StartService\<close> has been
  answered without error, a second one with no stop in between is answered with the
  error, whatever the collaborators would do.
\<close>

theorem double_start_rejected:
  "(running m \<longrightarrow> Start_m w m = Inr (Some (ServiceIsRunningError ''qan''), m))
   \<and> (running m \<and> Cmd_c cmd = ''StartService'' \<longrightarrow>
        Handle_m w m cmd
          = Inr (mkReply cmd NoData [ServiceIsRunningError ''qan''],
                 m\<lparr>status := (status m)(''qan'' \<mapsto> Str ''Running'')\<rparr>)
        \<and> Error_r (mkReply cmd NoData [ServiceIsRunningError ''qan'']) = ''qan is running''
        \<and> sublist ''qan is running''
             (Error_r (mkReply cmd NoData [ServiceIsRunningError ''qan''])))
   \<and> (Cmd_c cmd1 = ''StartService'' \<and> Handle_m w1 m0 cmd1 = Inr (r1, m1)
        \<and> Errors_r r1 = [] \<and> Cmd_c cmd2 = ''StartService'' \<longrightarrow>
        Handle_m w2 m1 cmd2
          = Inr (mkReply cmd2 NoData [ServiceIsRunningError ''qan''],
                 m1\<lparr>status := (status m1)(''qan'' \<mapsto> Str ''Running'')\<rparr>))"
proof -
  have "sublist ''qan is running''
          (Error_r (mkReply cmd NoData [ServiceIsRunningError ''qan'']))"
    by (simp add: running_error_text)
  moreover have "Cmd_c cmd1 = ''StartService'' \<and> Handle_m w1 m0 cmd1 = Inr (r1, m1)
        \<and> Errors_r r1 = [] \<and> Cmd_c cmd2 = ''StartService'' \<longrightarrow>
        Handle_m w2 m1 cmd2
          = Inr (mkReply cmd2 NoData [ServiceIsRunningError ''qan''],
                 m1\<lparr>status := (status m1)(''qan'' \<mapsto> Str ''Running'')\<rparr>)"
    using Handle_start_ok_running [of cmd1 w1 m0 r1 m1] Handle_start_running [of m1 cmd2 w2]
    by blast
  ultimately show ?thesis
    using Start_running [of m w] Handle_start_running [of m cmd w] running_error_text [of cmd]
    by blast
qed

theorem double_start_rejected_witness:
  "Cmd_c start_cmd = ''StartService''
   \<and> Handle_m quiet_world NewManager start_cmd = Inr after_first_start
   \<and> Errors_r (fst after_first_start) = []
   \<and> running (snd after_first_start)
   \<and> Start_m quiet_world (snd after_first_start)
       = Inr (Some (ServiceIsRunningError ''qan''), snd after_first_start)
   \<and> Handle_m quiet_world (snd after_first_start) start_cmd
       = Inr (mkReply start_cmd NoData [ServiceIsRunningError ''qan''],
              (snd after_first_start)
                \<lparr>status := (status (snd after_first_start))(''qan'' \<mapsto> Str ''Running'')\<rparr>)
   \<and> sublist ''qan is running''
        (Error_r (mkReply start_cmd NoData [ServiceIsRunningError ''qan'']))"
  using after_first_start
    double_start_rejected [where m = "snd after_first_start" and w = quiet_world
      and cmd = start_cmd and ?cmd1.0 = start_cmd and ?w1.0 = quiet_world
      and ?m0.0 = NewManager and ?r1.0 = "fst after_first_start"
      and ?m1.0 = "snd after_first_start" and ?cmd2.0 = start_cmd and ?w2.0 = quiet_world]
  by (simp add: start_cmd_def mkReply_def)

lemma Stop_not_running: "\<not> running m \<Longrightarrow> Stop_m w m = Inr (None, m)"
  by (simp add: Stop_m_def)

lemma Handle_stop_not_running:
  assumes "\<not> running m" and "Cmd_c cmd = ''StopService''"
  shows "Handle_m w m cmd
           = Inr (mkReply cmd NoData [],
                  m\<lparr>status := (status m)(''qan'' \<mapsto> Str ''Running'')\<rparr>)"
  using assms by (simp add: Handle_m_def Update_twice)

text \<open>
  Claim C9. On a manager that is not running \<open>Stop\<close> returns \<open>nil\<close> and leaves the manager
  as it is. A \<open>StopService\<close> command is answered without error; the manager afterwards
  differs from the one before in its status entry \<open>qan\<close> only (\<open>Handle\<close> sets it on
  entry and on return), so \<open>running\<close> is still false and the list of calls made on the
  iterator, the clock, the restart monitor and MySQL is the one before.
\<close>

theorem stop_when_stopped:
  "(\<not> running m \<longrightarrow> Stop_m w m = Inr (None, m))
   \<and> (\<not> running m \<and> Cmd_c cmd = ''StopService'' \<longrightarrow>
        (\<exists>m'. Handle_m w m cmd = Inr (mkReply cmd NoData [], m')
              \<and> m' = m\<lparr>status := (status m)(''qan'' \<mapsto> Str ''Running'')\<rparr>
              \<and> Errors_r (mkReply cmd NoData []) = []
              \<and> Error_r (mkReply cmd NoData []) = ''''
              \<and> \<not> running m' \<and> ops m' = ops m \<and> config m' = config m
              \<and> iter m' = iter m \<and> mysqlConn m' = mysqlConn m
              \<and> restartChan m' = restartChan m))"
  using Stop_not_running [of m w] Handle_stop_not_running [of m cmd w]
  by (simp add: mkReply_def)

theorem stop_when_stopped_witness:
  "\<not> running NewManager \<and> Cmd_c stop_cmd = ''StopService''
   \<and> Stop_m quiet_world NewManager = Inr (None, NewManager)
   \<and> Handle_m quiet_world NewManager stop_cmd
       = Inr (mkReply stop_cmd NoData [],
              NewManager\<lparr>status := (status NewManager)(''qan'' \<mapsto> Str ''Running'')\<rparr>)
   \<and> ops (NewManager\<lparr>status := (status NewManager)(''qan'' \<mapsto> Str ''Running'')\<rparr>) = []"
  using stop_when_stopped [of NewManager quiet_world stop_cmd]
  by (simp add: NewManager_def stop_cmd_def)

section \<open>Admission of workers by the loop of the QAN manager\<close>

lemma workers_logf [simp]: "workers (logf l a m) = workers m"
  by (simp add: logf_def)

lemma workers_call [simp]: "workers (call op m) = workers m"
  by (simp add: call_def)

lemma workers_Update [simp]: "workers (Update n v m) = workers m"
  by (simp add: Update_def)

lemma workers_configureMySQL:
  "configureMySQL w m cfg = Inl (p, m') \<Longrightarrow> workers m' = workers m"
  "configureMySQL w m cfg = Inr (err, m') \<Longrightarrow> workers m' = workers m"
  by (auto simp add: configureMySQL_def Let_def split: option.splits)

lemma workers_rotateSlowLog:
  "rotateSlowLog w cfg m iv = Inl (p, m') \<Longrightarrow> workers m' = workers m"
  "rotateSlowLog w cfg m iv = Inr (err, iv', m') \<Longrightarrow> workers m' = workers m"
  by (auto simp add: rotateSlowLog_def Let_def split: option.splits if_splits)

lemma workers_reap_old_logs [simp]: "workers (reap_old_logs w logs m) = workers m"
  by (induction w logs m rule: reap_old_logs.induct) (auto simp add: Let_def split: option.splits)

lemma workers_run_crashed [simp]: "workers (run_crashed p m) = workers m"
  by (simp add: run_crashed_def)

lemma workers_run_stopped [simp]: "workers (run_stopped m) = workers m"
  by (simp add: run_stopped_def)

lemma length_AList_update: "length (AList.update k v al) \<le> Suc (length al)"
  by (induction al) auto

lemma workers_within_update:
  assumes "workers_within B m" and "int (length (workers m)) < B"
      and "workers m' = AList.update wk iv (workers m)"
  shows "workers_within B m'"
proof -
  have "length (AList.update wk iv (workers m)) \<le> Suc (length (workers m))"
    by (rule length_AList_update)
  then show ?thesis
    using assms by (auto simp add: workers_within_def distinct_update)
qed

lemma workers_within_delete:
  assumes "workers_within B m" and "workers m' = AList.delete wk (workers m)"
  shows "workers_within B m'"
proof -
  have "length (AList.delete wk (workers m)) \<le> length (workers m)"
    by (rule length_delete_le)
  then show ?thesis
    using assms by (auto simp add: workers_within_def distinct_delete)
qed

lemma workers_within_logf [simp]: "workers_within B (logf l a m) = workers_within B m"
  by (simp add: workers_within_def)

lemma workers_within_call [simp]: "workers_within B (call op m) = workers_within B m"
  by (simp add: workers_within_def)

lemma workers_within_Update [simp]: "workers_within B (Update n v m) = workers_within B m"
  by (simp add: workers_within_def)

lemma workers_within_run_crashed [simp]: "workers_within B (run_crashed p m) = workers_within B m"
  by (simp add: workers_within_def)

lemma length_update_bound:
  "int (length al) < M \<Longrightarrow> int (length (AList.update k v al)) \<le> M"
  using length_AList_update [of k v al] by linarith

lemma run_interval_within:
  assumes ok: "workers_within B m" and mb: "MaxWorkers cfg \<le> B"
  shows "workers_within B (manager_of (run_interval w cfg m lastTs iv))"
proof (cases "MaxWorkers cfg \<le> int (length (workers m))")
  case True
  then show ?thesis
    using ok by (simp add: run_interval_def manager_of_def Let_def)
next
  case False
  then have lt: "int (length (workers m)) < MaxWorkers cfg" by simp
  then have ltB: "int (length (workers m)) < B" using mb by simp
  show ?thesis
    using ok lt ltB
    by (auto simp add: run_interval_def manager_of_def Let_def workers_within_def
          distinct_update length_update_bound
          split: sum.splits option.splits prod.splits if_splits
          dest!: workers_rotateSlowLog)
qed

lemma run_worker_done_workers:
  "workers (manager_of (run_worker_done w cfg m lastTs wk)) = AList.delete wk (workers m)"
  by (auto simp add: run_worker_done_def manager_of_def Let_def split: option.splits)

lemma run_restart_workers:
  "workers (manager_of (run_restart w cfg m lastTs)) = workers m"
  by (auto simp add: run_restart_def manager_of_def
        split: sum.splits option.splits prod.splits dest: workers_configureMySQL)

lemma run_step_within:
  assumes "workers_within B m" and "MaxWorkers cfg \<le> B"
  shows "workers_within B (manager_of (run_step w cfg m lastTs ev))"
proof (cases ev)
  case (IntervalEv iv)
  have "workers_within B (manager_of (run_interval w cfg
          (Update ''qan-parser''
             (Str (''Idle ('' @ show_int (int (length (workers m))) @ '' of ''
                     @ show_int (MaxWorkers cfg) @ '' running)''))
             (logf DEBUG [S ''run:idle''] m)) lastTs iv))"
    by (rule run_interval_within) (simp_all add: assms)
  then show ?thesis
    using IntervalEv by (simp add: run_step_def Let_def)
next
  case (WorkerDoneEv wk)
  have "workers_within B (manager_of (run_worker_done w cfg
          (Update ''qan-parser''
             (Str (''Idle ('' @ show_int (int (length (workers m))) @ '' of ''
                     @ show_int (MaxWorkers cfg) @ '' running)''))
             (logf DEBUG [S ''run:idle''] m)) lastTs wk))"
    by (rule workers_within_delete [where m = m and wk = wk])
       (simp_all add: assms run_worker_done_workers)
  then show ?thesis
    using WorkerDoneEv by (simp add: run_step_def Let_def)
next
  case RestartEv
  then show ?thesis
    using assms by (simp add: run_step_def Let_def run_restart_workers workers_within_def)
next
  case StopEv
  then show ?thesis
    using assms by (simp add: run_step_def Let_def manager_of_def workers_within_def)
qed

lemma run_loop_within:
  "workers_within B m \<Longrightarrow> MaxWorkers cfg \<le> B
     \<Longrightarrow> workers_within B (manager_of (run_loop cfg m lastTs evs))"
proof (induction evs arbitrary: m lastTs)
  case Nil
  then show ?case by (simp add: manager_of_def)
next
  case (Cons a evs)
  obtain w ev where a: "a = (w, ev)" by (cases a)
  have step: "workers_within B (manager_of (run_step w cfg m lastTs ev))"
    using Cons.prems by (rule run_step_within)
  show ?case
  proof (cases "run_step w cfg m lastTs ev")
    case (Continue m' lastTs')
    then have "workers_within B m'" using step by (simp add: manager_of_def)
    then show ?thesis using Cons.IH Cons.prems(2) a Continue by simp
  next
    case (Exited m')
    then show ?thesis using step a by (simp add: manager_of_def)
  qed
qed

lemma dropped:
  assumes "MaxWorkers cfg \<le> int (length (workers m))"
  shows "run_step w cfg m lastTs (IntervalEv iv)
          = Continue
              (m\<lparr>status := (status m)(''qan-parser'' \<mapsto>
                     Str (''Idle ('' @ show_int (int (length (workers m))) @ '' of ''
                            @ show_int (MaxWorkers cfg) @ '' running)'')),
                  logged := logged m @
                    [(DEBUG, [S ''run:idle'']),
                     (DEBUG, [S (''run:interval:'' @ show_int (Number iv))]),
                     (DEBUG, [S (show_int (int (length (workers m))) @ '' workers running'')]),
                     (WARN, [S ''All workers busy, interval dropped''])]\<rparr>)
              lastTs"
  using assms by (simp add: run_step_def run_interval_def Let_def logf_def Update_def)

lemma one_worker_manager_fields:
  "workers one_worker_manager = []
   \<and> mysqlInstance one_worker_manager = Some \<lparr>DSN = ''percona:secret@tcp(127.0.0.1:3306)/''\<rparr>
   \<and> config one_worker_manager = Some one_worker_config
   \<and> running one_worker_manager"
  by (simp add: one_worker_manager_def Handle_m_def start_def start_steps_def
        makeMySQLConn_def configureMySQL_def ValidateConfig_def one_worker_config_def
        default_config_def quiet_world_def start_cmd_def NewManager_def
        Update_def logf_def call_def Let_def)

lemma one_busy_workers: "workers one_busy = [(7, interval_no 1)]"
  using one_worker_manager_fields
  by (simp add: one_busy_def busy_run_def run_def run_step_def run_interval_def manager_of_def
        making_def quiet_world_def one_worker_config_def default_config_def
        Update_def logf_def call_def Let_def)

lemma workers_makeMySQLConn: "makeMySQLConn w m s i = (err, m') \<Longrightarrow> workers m' = workers m"
  by (auto simp add: makeMySQLConn_def Let_def split: sum.splits)

lemma workers_start_steps:
  "start_steps w m cfg0 = Inl (p, m') \<Longrightarrow> workers m' = workers m"
  "start_steps w m cfg0 = Inr (err, cfg, m') \<Longrightarrow> workers m' = workers m"
  by (auto simp add: start_steps_def Let_def
        split: prod.splits option.splits sum.splits if_splits
        dest!: workers_makeMySQLConn workers_configureMySQL)

lemma workers_start:
  "start w m cfg0 = Inl (p, m') \<Longrightarrow> workers m' = workers m"
  "start w m cfg0 = Inr (err, cfg, m') \<Longrightarrow> workers m' = workers m"
  by (auto simp add: start_def split: sum.splits prod.splits dest!: workers_start_steps)

lemma workers_stop:
  "stop w m = Inl (p, m') \<Longrightarrow> workers m' = workers m"
  "stop w m = Inr (err, m') \<Longrightarrow> workers m' = workers m"
  by (auto simp add: stop_def Let_def split: option.splits)

lemma workers_GetConfig_m: "GetConfig_m w m = (cfgs, errs, m') \<Longrightarrow> workers m' = workers m"
  by (auto simp add: GetConfig_m_def Let_def split: option.splits sum.splits)

lemma workers_Handle_m:
  "Handle_m w m cmd = Inl (p, m') \<Longrightarrow> workers m' = workers m"
  "Handle_m w m cmd = Inr (rp, m') \<Longrightarrow> workers m' = workers m"
  by (auto simp add: Handle_m_def Let_def
        split: sum.splits prod.splits option.splits if_splits
        dest!: workers_start workers_stop workers_GetConfig_m)

lemma workers_manager_after_Handle_m: "workers (manager_after (Handle_m w m cmd)) = workers m"
  by (auto simp add: manager_after_def split: sum.splits dest: workers_Handle_m)

lemma restarted_fields:
  "reply_errors first_run = Inr []
   \<and> reply_errors restarted = Inr []
   \<and> workers restarted_manager = [(7, interval_no 1), (8, interval_no 2)]
   \<and> config restarted_manager = Some one_worker_config
   \<and> running restarted_manager"
  by (simp add: restarted_manager_def restarted_def first_run_def two_busy_run_def decoding_def
        manager_after_def reply_errors_def
        Handle_m_def start_def start_steps_def stop_def
        makeMySQLConn_def configureMySQL_def ValidateConfig_def one_worker_config_def
        two_worker_config_def mkReply_def
        default_config_def quiet_world_def start_cmd_def stop_cmd_def NewManager_def
        run_def run_step_def run_interval_def run_stopped_def manager_of_def making_def
        Update_def logf_def call_def Let_def)

lemma run_nil: "manager_of (run cfg m []) = Update ''qan-parser'' (Str ''Starting'') m"
  by (simp add: run_def manager_of_def)

text \<open>
  Claim C5, as the code has it. The worker map is made once, in \<open>NewManager\<close>; only the
  loop \<open>run\<close> writes to it, and \<open>Handle\<close>, with the \<open>start\<close> and \<open>stop\<close> it calls, leaves it
  as it is, so that a run started after a stop inherits the workers of the run before. In
  a run the map never holds more workers than any bound that is at least \<open>MaxWorkers\<close> and
  that it respects when the iterations begin, whatever intervals, finished workers,
  restart notifications and stop requests arrive and whatever the collaborators answer:
  the number of workers never exceeds the larger of \<open>MaxWorkers\<close> and the number the run
  began with. A run that begins without workers, as the first run of a new manager does,
  with a config accepted by \<open>ValidateConfig\<close> never holds more than \<open>MaxWorkers\<close>. When an
  interval arrives while the map holds \<open>MaxWorkers\<close> workers or more, the iteration logs
  the warning and goes on with a manager that differs from the one before in the status
  of \<open>qan-parser\<close> and the four log lines only: no worker is made, registered or started,
  and the interval is kept nowhere.
\<close>

theorem worker_admission:
  "(workers_within B m \<and> MaxWorkers cfg \<le> B
        \<longrightarrow> workers_within B (manager_of (run_loop cfg m lastTs evs)))
   \<and> (distinct (map fst (workers m1))
        \<longrightarrow> workers_within (max (MaxWorkers cfg) (int (length (workers m1))))
              (manager_of (run cfg m1 evs1)))
   \<and> (snd (ValidateConfig cfg) = None \<and> workers m0 = []
        \<longrightarrow> workers_ok cfg (manager_of (run cfg m0 evs0)))
   \<and> workers (manager_after (Handle_m w m cmd)) = workers m
   \<and> (MaxWorkers cfg \<le> int (length (workers m)) \<longrightarrow>
        run_step w cfg m lastTs (IntervalEv iv)
          = Continue
              (m\<lparr>status := (status m)(''qan-parser'' \<mapsto>
                     Str (''Idle ('' @ show_int (int (length (workers m))) @ '' of ''
                            @ show_int (MaxWorkers cfg) @ '' running)'')),
                  logged := logged m @
                    [(DEBUG, [S ''run:idle'']),
                     (DEBUG, [S (''run:interval:'' @ show_int (Number iv))]),
                     (DEBUG, [S (show_int (int (length (workers m))) @ '' workers running'')]),
                     (WARN, [S ''All workers busy, interval dropped''])]\<rparr>)
              lastTs)"
proof -
  have c: "snd (ValidateConfig cfg) = None \<and> workers m0 = []
        \<longrightarrow> workers_ok cfg (manager_of (run cfg m0 evs0))"
  proof (intro impI, elim conjE)
    assume v: "snd (ValidateConfig cfg) = None" and e: "workers m0 = []"
    from v have "within_bounds cfg" by (simp add: ValidateConfig_nil_iff)
    then have "0 \<le> MaxWorkers cfg" by (simp add: within_bounds_def)
    then have "workers_within (MaxWorkers cfg) (Update ''qan-parser'' (Str ''Starting'') m0)"
      using e by (simp add: workers_within_def)
    then show "workers_ok cfg (manager_of (run cfg m0 evs0))"
      unfolding run_def workers_ok_def by (rule run_loop_within) simp
  qed
  have b: "distinct (map fst (workers m1))
        \<longrightarrow> workers_within (max (MaxWorkers cfg) (int (length (workers m1))))
              (manager_of (run cfg m1 evs1))"
  proof
    assume d: "distinct (map fst (workers m1))"
    then have "workers_within (max (MaxWorkers cfg) (int (length (workers m1))))
                 (Update ''qan-parser'' (Str ''Starting'') m1)"
      by (simp add: workers_within_def)
    then show "workers_within (max (MaxWorkers cfg) (int (length (workers m1))))
                 (manager_of (run cfg m1 evs1))"
      unfolding run_def by (rule run_loop_within) simp
  qed
  show ?thesis
    using b c run_loop_within [of B m cfg lastTs evs] dropped [of cfg m w lastTs iv]
      workers_manager_after_Handle_m [of w m cmd]
    by blast
qed

theorem worker_admission_witness:
  "snd (ValidateConfig one_worker_config) = None
   \<and> workers one_worker_manager = []
   \<and> workers_ok one_worker_config
        (manager_of (run one_worker_config one_worker_manager busy_run))
   \<and> workers_ok one_worker_config one_busy
   \<and> workers one_busy = [(7, interval_no 1)]
   \<and> MaxWorkers one_worker_config \<le> int (length (workers one_busy))
   \<and> manager_of (run_step (making 8) one_worker_config one_busy (at_sec 0)
                    (IntervalEv (interval_no 2)))
       = one_busy
           \<lparr>status := (status one_busy)(''qan-parser'' \<mapsto> Str ''Idle (1 of 1 running)''),
            logged := logged one_busy @
              [(DEBUG, [S ''run:idle'']),
               (DEBUG, [S ''run:interval:2'']),
               (DEBUG, [S ''1 workers running'']),
               (WARN, [S ''All workers busy, interval dropped''])]\<rparr>
   \<and> workers_within 2 restarted_manager
   \<and> MaxWorkers one_worker_config \<le> 2
   \<and> workers_within 2
        (manager_of (run_loop one_worker_config restarted_manager (at_sec 0) late_run))
   \<and> distinct (map fst (workers restarted_manager))
   \<and> workers_within 2 (manager_of (run one_worker_config restarted_manager late_run))"
proof -
  have v: "snd (ValidateConfig one_worker_config) = None"
    by (simp add: ValidateConfig_def one_worker_config_def default_config_def)
  have e: "workers one_worker_manager = []"
    using one_worker_manager_fields by simp
  have a: "workers_ok one_worker_config
             (manager_of (run one_worker_config one_worker_manager busy_run))"
    using v e worker_admission [where cfg = one_worker_config and ?m0.0 = one_worker_manager
        and ?evs0.0 = busy_run]
    by blast
  have b: "workers_ok one_worker_config one_busy"
    unfolding one_busy_def
    using v e worker_admission [where cfg = one_worker_config and ?m0.0 = one_worker_manager
        and ?evs0.0 = "take 1 busy_run"]
    by blast
  have c: "MaxWorkers one_worker_config \<le> int (length (workers one_busy))"
    by (simp add: one_busy_workers one_worker_config_def)
  have "run_step (making 8) one_worker_config one_busy (at_sec 0) (IntervalEv (interval_no 2))
          = Continue
              (one_busy\<lparr>status := (status one_busy)(''qan-parser'' \<mapsto>
                     Str (''Idle ('' @ show_int (int (length (workers one_busy))) @ '' of ''
                            @ show_int (MaxWorkers one_worker_config) @ '' running)'')),
                  logged := logged one_busy @
                    [(DEBUG, [S ''run:idle'']),
                     (DEBUG, [S (''run:interval:'' @ show_int (Number (interval_no 2)))]),
                     (DEBUG, [S (show_int (int (length (workers one_busy)))
                                  @ '' workers running'')]),
                     (WARN, [S ''All workers busy, interval dropped''])]\<rparr>)
              (at_sec 0)"
    using c worker_admission [where cfg = one_worker_config and m = one_busy
        and w = "making 8" and lastTs = "at_sec 0" and iv = "interval_no 2"]
    by blast
  then have d: "manager_of (run_step (making 8) one_worker_config one_busy (at_sec 0)
                    (IntervalEv (interval_no 2)))
       = one_busy
           \<lparr>status := (status one_busy)(''qan-parser'' \<mapsto> Str ''Idle (1 of 1 running)''),
            logged := logged one_busy @
              [(DEBUG, [S ''run:idle'']),
               (DEBUG, [S ''run:interval:2'']),
               (DEBUG, [S ''1 workers running'']),
               (WARN, [S ''All workers busy, interval dropped''])]\<rparr>"
    by (simp add: manager_of_def one_busy_workers show_int_def show_nat_digit interval_no_def
          one_worker_config_def)
  have f: "workers restarted_manager = [(7, interval_no 1), (8, interval_no 2)]"
    using restarted_fields by simp
  have g: "workers_within 2 restarted_manager"
    by (simp add: workers_within_def f)
  have h: "MaxWorkers one_worker_config \<le> 2"
    by (simp add: one_worker_config_def)
  have i: "workers_within 2
        (manager_of (run_loop one_worker_config restarted_manager (at_sec 0) late_run))"
    using g h worker_admission [where B = 2 and cfg = one_worker_config
        and m = restarted_manager and lastTs = "at_sec 0" and evs = late_run]
    by blast
  have j: "distinct (map fst (workers restarted_manager))"
    by (simp add: f)
  have "workers_within (max (MaxWorkers one_worker_config)
                          (int (length (workers restarted_manager))))
          (manager_of (run one_worker_config restarted_manager late_run))"
    using j worker_admission [where cfg = one_worker_config and ?m1.0 = restarted_manager
        and ?evs1.0 = late_run]
    by blast
  then have k: "workers_within 2 (manager_of (run one_worker_config restarted_manager late_run))"
    by (simp add: f one_worker_config_def)
  show ?thesis
    using v e a b c d g h i j k one_busy_workers by blast
qed

text \<open>
  The bound as the specification states it, for every config that passes validation and
  at every observation, does not hold. After the stop and the restart of the scenario
  above, every reply without an error, the manager runs the validated config with
  \<open>MaxWorkers\<close> 1 while its worker map holds the workers 7 and 8 of the first run: two
  workers where one is allowed. The new loop reports it in its status, \<open>2 of 1 running\<close>.
\<close>

theorem restart_exceeds_MaxWorkers_counterexample:
  "snd (ValidateConfig two_worker_config) = None
   \<and> snd (ValidateConfig one_worker_config) = None
   \<and> reply_errors first_run = Inr []
   \<and> reply_errors restarted = Inr []
   \<and> running restarted_manager
   \<and> config restarted_manager = Some one_worker_config
   \<and> MaxWorkers one_worker_config = 1
   \<and> map fst (workers restarted_manager) = [7, 8]
   \<and> map fst (workers (manager_of (run one_worker_config restarted_manager []))) = [7, 8]
   \<and> \<not> workers_ok one_worker_config (manager_of (run one_worker_config restarted_manager []))
   \<and> status (manager_of (run one_worker_config restarted_manager
                 [(making 9, IntervalEv (interval_no 3))])) ''qan-parser''
       = Some (Str ''Idle (2 of 1 running)'')"
proof -
  have v: "snd (ValidateConfig two_worker_config) = None
           \<and> snd (ValidateConfig one_worker_config) = None
           \<and> MaxWorkers one_worker_config = 1"
    by (simp add: ValidateConfig_def one_worker_config_def two_worker_config_def
          default_config_def)
  have f: "workers restarted_manager = [(7, interval_no 1), (8, interval_no 2)]"
    using restarted_fields by simp
  have a: "map fst (workers (manager_of (run one_worker_config restarted_manager []))) = [7, 8]"
    by (simp add: run_nil f)
  have b: "\<not> workers_ok one_worker_config
               (manager_of (run one_worker_config restarted_manager []))"
    using v by (simp add: run_nil workers_ok_def workers_within_def f)
  have c: "status (manager_of (run one_worker_config restarted_manager
                 [(making 9, IntervalEv (interval_no 3))])) ''qan-parser''
       = Some (Str ''Idle (2 of 1 running)'')"
    using v
    by (simp add: run_def manager_of_def dropped f show_int_def show_nat_digit)
  show ?thesis
    using v f a b c restarted_fields by simp
qed

section \<open>The result of the perfschema worker\<close>







lemma class_id:
  "ToUpper (take 16 (drop 16 ''0123456789abcdef0123456789ABCDEF01234567'')) = ''0123456789ABCDEF''"
  by (simp add: ToUpper_def to_upper_def)


section \<open>Crashes of the handlers of the agent\<close>

lemma cmdHandler_crash_step:
  "Run_step aw a ce se CmdHandlerCrashEv
     = (if ce + 1 < 3 then
          Running (acall GoCmdHandler_op
                     (alog ERROR [S ''cmdHandler crashed, restarting'']
                        (aUpdate ''agent'' (Str ''Idle'') (alog DEBUG [S ''wait''] a))))
            (ce + 1) se
        else
          Running (alog FATAL [S ''Too many cmdHandler errors'']
                     (aUpdate ''agent'' (Str ''Idle'') (alog DEBUG [S ''wait''] a)))
            (ce + 1) se)"
  by (simp add: Run_step_def MAX_ERRORS_def Let_def)

text \<open>
  Claim C7, at three crashes of the command handler in a row. After the second crash the
  counter is 2 and the handler has been started three times: once by \<open>Run\<close> and once
  after each crash. The third crash makes the counter 3, which is not below
  \<open>MAX_ERRORS\<close>: the handler is not started again, the last line logged is the fatal
  one, and \<open>Run\<close> goes on.
\<close>

theorem third_crash_is_fatal:
  "map_option (\<lambda>(a, cmdHandlerErrors, statusHandlerErrors).
       (cmdHandlerErrors, statusHandlerErrors, times_called GoCmdHandler_op a))
     (still_running (Run some_agent (take 2 three_crashes)))
     = Some (2, 0, 3)
   \<and> map_option (\<lambda>(a, cmdHandlerErrors, statusHandlerErrors).
       (cmdHandlerErrors, statusHandlerErrors, times_called GoCmdHandler_op a,
        last (a_logged a)))
     (still_running (Run some_agent three_crashes))
     = Some (3, 0, 3, (FATAL, [S ''Too many cmdHandler errors'']))"
  by (simp add: Run_def three_crashes_def cmdHandler_crash_step still_running_def
        times_called_def alog_def acall_def aUpdate_def some_agent_def)

section \<open>Setting the config of the agent\<close>

lemma change_api_key_result:
  "change_api_key aw new (a_config a, [], a) = (cfg, errs, a')
   \<Longrightarrow> cfg = (a_config a)\<lparr>ApiKey :=
               (if key_attempted a new \<and> key_result aw a new = None then ApiKey new
                else ApiKey (a_config a))\<rparr>
     \<and> errs = (if key_attempted a new then
                 (case key_result aw a new of
                    Some e \<Rightarrow> [ErrorString (''agent.api.Connect:ApiKey:'' @ Error_text e)]
                  | None \<Rightarrow> [])
               else [])
     \<and> api_Hostname (a_api a') = api_Hostname (a_api a)
     \<and> api_AgentUuid (a_api a') = api_AgentUuid (a_api a)
     \<and> api_ApiKey (a_api a')
         = (if key_attempted a new \<and> key_result aw a new = None then ApiKey new
            else api_ApiKey (a_api a))
     \<and> a_config a' = a_config a"
  by (auto simp add: change_api_key_def key_attempted_def key_result_def Let_def
        alog_def acall_def split: option.splits if_splits)

lemma change_api_hostname_result:
  "change_api_hostname aw new (cfg1, errs1, a1) = (cfg, errs, a')
   \<Longrightarrow> cfg = cfg1\<lparr>ApiHostname :=
               (if (ApiHostname new \<noteq> '''' \<and> ApiHostname new \<noteq> ApiHostname cfg1)
                   \<and> aw_ApiConnect aw (ApiHostname new) (api_ApiKey (a_api a1))
                         (api_AgentUuid (a_api a1)) = None
                then ApiHostname new else ApiHostname cfg1)\<rparr>
     \<and> errs = errs1
         @ (if ApiHostname new \<noteq> '''' \<and> ApiHostname new \<noteq> ApiHostname cfg1 then
              (case aw_ApiConnect aw (ApiHostname new) (api_ApiKey (a_api a1))
                      (api_AgentUuid (a_api a1)) of
                 Some e \<Rightarrow> [ErrorString (''agent.api.Connect:ApiHostname:'' @ Error_text e)]
               | None \<Rightarrow> [])
            else [])"
  by (auto simp add: change_api_hostname_def Let_def alog_def acall_def
        split: option.splits if_splits)

lemma SetConfig_result:
  assumes u: "aw_Unmarshal aw (Data_c cmd) = Inr new"
      and h: "handleSetConfig aw a cmd = (data, errs, a')"
  shows "ApiKey (a_config a')
           = (if key_attempted a new \<and> key_result aw a new = None then ApiKey new
              else ApiKey (a_config a))"
    and "ApiHostname (a_config a')
           = (if host_attempted a new \<and> host_result aw a new = None then ApiHostname new
              else ApiHostname (a_config a))"
    and "AgentUuid (a_config a') = AgentUuid (a_config a)"
    and "Links (a_config a') = Links (a_config a)"
    and "errs
           = (if key_attempted a new then
                (case key_result aw a new of
                   Some e \<Rightarrow> [ErrorString (''agent.api.Connect:ApiKey:'' @ Error_text e)]
                 | None \<Rightarrow> [])
              else [])
             @ (if host_attempted a new then
                  (case host_result aw a new of
                     Some e \<Rightarrow>
                       [ErrorString (''agent.api.Connect:ApiHostname:'' @ Error_text e)]
                   | None \<Rightarrow> [])
                else [])
             @ (case aw_WriteConfig aw ''agent'' (a_config a') of
                  Some e \<Rightarrow> [ErrorString (''agent.WriteConfig:'' @ Error_text e)]
                | None \<Rightarrow> [])"
    and "data = OneConfig (a_config a')"
    and "a_ops a' \<noteq> []"
    and "last (a_ops a') = WriteAgentConfig_op ''agent'' (a_config a')"
proof -
  define a1 where "a1 = alog INFO [C cmd] (aUpdate ''agent-cmd-handler'' (Re ''SetConfig'' cmd) a)"
  have a1: "a_config a1 = a_config a" "a_api a1 = a_api a"
    by (simp_all add: a1_def alog_def aUpdate_def)
  obtain cfg1 errs1 a2 where k: "change_api_key aw new (a_config a1, [], a1) = (cfg1, errs1, a2)"
    by (cases "change_api_key aw new (a_config a1, [], a1)") auto
  obtain cfg2 errs2 a3 where hh: "change_api_hostname aw new (cfg1, errs1, a2) = (cfg2, errs2, a3)"
    by (cases "change_api_hostname aw new (cfg1, errs1, a2)") auto
  note kr = change_api_key_result [OF k]
  note hr = change_api_hostname_result [OF hh]
  have ka: "key_attempted a1 new = key_attempted a new"
    and kres: "key_result aw a1 new = key_result aw a new"
    by (simp_all add: key_attempted_def key_result_def a1)
  have cfg1: "cfg1 = (a_config a)\<lparr>ApiKey :=
               (if key_attempted a new \<and> key_result aw a new = None then ApiKey new
                else ApiKey (a_config a))\<rparr>"
    using kr by (simp add: ka kres a1)
  have hcond: "(ApiHostname new \<noteq> '''' \<and> ApiHostname new \<noteq> ApiHostname cfg1)
                 = host_attempted a new"
    by (simp add: cfg1 host_attempted_def)
  have hres: "aw_ApiConnect aw (ApiHostname new) (api_ApiKey (a_api a2))
                (api_AgentUuid (a_api a2)) = host_result aw a new"
    using kr by (simp add: host_result_def ka kres a1)
  have cfg2: "cfg2 = cfg1\<lparr>ApiHostname :=
               (if host_attempted a new \<and> host_result aw a new = None then ApiHostname new
                else ApiHostname cfg1)\<rparr>"
    using hr by (simp add: hcond hres)
  have errs2: "errs2 = errs1
         @ (if host_attempted a new then
              (case host_result aw a new of
                 Some e \<Rightarrow> [ErrorString (''agent.api.Connect:ApiHostname:'' @ Error_text e)]
               | None \<Rightarrow> [])
            else [])"
    using hr by (simp add: hcond hres)
  have errs1: "errs1 = (if key_attempted a new then
                 (case key_result aw a new of
                    Some e \<Rightarrow> [ErrorString (''agent.api.Connect:ApiKey:'' @ Error_text e)]
                  | None \<Rightarrow> [])
               else [])"
    using kr by (simp add: ka kres)
  have res: "handleSetConfig aw a cmd
      = (OneConfig cfg2,
         (case aw_WriteConfig aw ''agent'' cfg2 of
            Some err \<Rightarrow> errs2 @ [ErrorString (''agent.WriteConfig:'' @ Error_text err)]
          | None \<Rightarrow> errs2),
         (acall (WriteAgentConfig_op ''agent'' cfg2) a3)\<lparr>a_config := cfg2\<rparr>)"
    using u k hh by (simp add: handleSetConfig_def Let_def a1_def)
  from res h have d: "data = OneConfig cfg2"
    and e: "errs = (case aw_WriteConfig aw ''agent'' cfg2 of
            Some err \<Rightarrow> errs2 @ [ErrorString (''agent.WriteConfig:'' @ Error_text err)]
          | None \<Rightarrow> errs2)"
    and a': "a' = (acall (WriteAgentConfig_op ''agent'' cfg2) a3)\<lparr>a_config := cfg2\<rparr>"
    by simp_all
  have c: "a_config a' = cfg2" by (simp add: a')
  show "ApiKey (a_config a')
           = (if key_attempted a new \<and> key_result aw a new = None then ApiKey new
              else ApiKey (a_config a))"
    by (simp add: c cfg2 cfg1)
  show "ApiHostname (a_config a')
           = (if host_attempted a new \<and> host_result aw a new = None then ApiHostname new
              else ApiHostname (a_config a))"
    by (simp add: c cfg2 cfg1)
  show "AgentUuid (a_config a') = AgentUuid (a_config a)"
    by (simp add: c cfg2 cfg1)
  show "Links (a_config a') = Links (a_config a)"
    by (simp add: c cfg2 cfg1)
  show "errs
           = (if key_attempted a new then
                (case key_result aw a new of
                   Some e \<Rightarrow> [ErrorString (''agent.api.Connect:ApiKey:'' @ Error_text e)]
                 | None \<Rightarrow> [])
              else [])
             @ (if host_attempted a new then
                  (case host_result aw a new of
                     Some e \<Rightarrow>
                       [ErrorString (''agent.api.Connect:ApiHostname:'' @ Error_text e)]
                   | None \<Rightarrow> [])
                else [])
             @ (case aw_WriteConfig aw ''agent'' (a_config a') of
                  Some e \<Rightarrow> [ErrorString (''agent.WriteConfig:'' @ Error_text e)]
                | None \<Rightarrow> [])"
    unfolding c e errs2 errs1 by (simp split: option.splits)
  show "data = OneConfig (a_config a')" by (simp add: c d)
  show "a_ops a' \<noteq> []" by (simp add: a' acall_def)
  show "last (a_ops a') = WriteAgentConfig_op ''agent'' (a_config a')"
    by (simp add: a' acall_def)
qed

text \<open>
  Claim C8. When the payload of a \<open>SetConfig\<close> decodes to a config, a field of it (API
  key or API hostname) that is empty or equal to the current value leaves that field of
  the agent's config as it is, and so are the agent's UUID and links in every case. A
  field is changed exactly when its mutation is attempted and the connector accepts it.
  The errors returned are one for the key if its mutation was attempted and failed, one
  for the hostname likewise, and one if the config could not be written. Whatever failed,
  the merged config is the data of the reply, the last call made is the writing of that
  config under the name \<open>agent\<close>, and it is the agent's config afterwards.
\<close>

theorem SetConfig_partial:
  "aw_Unmarshal aw (Data_c cmd) = Inr new \<and> handleSetConfig aw a cmd = (data, errs, a') \<longrightarrow>
     (ApiKey new = '''' \<or> ApiKey new = ApiKey (a_config a)
        \<longrightarrow> ApiKey (a_config a') = ApiKey (a_config a))
   \<and> (ApiHostname new = '''' \<or> ApiHostname new = ApiHostname (a_config a)
        \<longrightarrow> ApiHostname (a_config a') = ApiHostname (a_config a))
   \<and> AgentUuid (a_config a') = AgentUuid (a_config a)
   \<and> Links (a_config a') = Links (a_config a)
   \<and> ApiKey (a_config a')
       = (if key_attempted a new \<and> key_result aw a new = None then ApiKey new
          else ApiKey (a_config a))
   \<and> ApiHostname (a_config a')
       = (if host_attempted a new \<and> host_result aw a new = None then ApiHostname new
          else ApiHostname (a_config a))
   \<and> errs
       = (if key_attempted a new then
            (case key_result aw a new of
               Some e \<Rightarrow> [ErrorString (''agent.api.Connect:ApiKey:'' @ Error_text e)]
             | None \<Rightarrow> [])
          else [])
         @ (if host_attempted a new then
              (case host_result aw a new of
                 Some e \<Rightarrow> [ErrorString (''agent.api.Connect:ApiHostname:'' @ Error_text e)]
               | None \<Rightarrow> [])
            else [])
         @ (case aw_WriteConfig aw ''agent'' (a_config a') of
              Some e \<Rightarrow> [ErrorString (''agent.WriteConfig:'' @ Error_text e)]
            | None \<Rightarrow> [])
   \<and> data = OneConfig (a_config a')
   \<and> a_ops a' \<noteq> []
   \<and> last (a_ops a') = WriteAgentConfig_op ''agent'' (a_config a')"
proof (intro impI, elim conjE)
  assume u: "aw_Unmarshal aw (Data_c cmd) = Inr new"
     and h: "handleSetConfig aw a cmd = (data, errs, a')"
  note r = SetConfig_result [OF u h]
  have k: "ApiKey new = '''' \<or> ApiKey new = ApiKey (a_config a)
             \<longrightarrow> ApiKey (a_config a') = ApiKey (a_config a)"
    using r(1) by (auto simp add: key_attempted_def)
  have ho: "ApiHostname new = '''' \<or> ApiHostname new = ApiHostname (a_config a)
             \<longrightarrow> ApiHostname (a_config a') = ApiHostname (a_config a)"
    using r(2) by (auto simp add: host_attempted_def)
  show "(ApiKey new = '''' \<or> ApiKey new = ApiKey (a_config a)
        \<longrightarrow> ApiKey (a_config a') = ApiKey (a_config a))
   \<and> (ApiHostname new = '''' \<or> ApiHostname new = ApiHostname (a_config a)
        \<longrightarrow> ApiHostname (a_config a') = ApiHostname (a_config a))
   \<and> AgentUuid (a_config a') = AgentUuid (a_config a)
   \<and> Links (a_config a') = Links (a_config a)
   \<and> ApiKey (a_config a')
       = (if key_attempted a new \<and> key_result aw a new = None then ApiKey new
          else ApiKey (a_config a))
   \<and> ApiHostname (a_config a')
       = (if host_attempted a new \<and> host_result aw a new = None then ApiHostname new
          else ApiHostname (a_config a))
   \<and> errs
       = (if key_attempted a new then
            (case key_result aw a new of
               Some e \<Rightarrow> [ErrorString (''agent.api.Connect:ApiKey:'' @ Error_text e)]
             | None \<Rightarrow> [])
          else [])
         @ (if host_attempted a new then
              (case host_result aw a new of
                 Some e \<Rightarrow> [ErrorString (''agent.api.Connect:ApiHostname:'' @ Error_text e)]
               | None \<Rightarrow> [])
            else [])
         @ (case aw_WriteConfig aw ''agent'' (a_config a') of
              Some e \<Rightarrow> [ErrorString (''agent.WriteConfig:'' @ Error_text e)]
            | None \<Rightarrow> [])
   \<and> data = OneConfig (a_config a')
   \<and> a_ops a' \<noteq> []
   \<and> last (a_ops a') = WriteAgentConfig_op ''agent'' (a_config a')"
    using k ho r(3) r(4) r(1) r(2) r(5) r(6) r(7) r(8) by blast
qed

theorem SetConfig_partial_witness:
  "aw_Unmarshal partial_world (Data_c set_config_cmd) = Inr new_key_and_host
   \<and> key_attempted some_agent new_key_and_host
   \<and> key_result partial_world some_agent new_key_and_host = Some (ErrorString ''Unauthorized'')
   \<and> host_attempted some_agent new_key_and_host
   \<and> host_result partial_world some_agent new_key_and_host = None
   \<and> fst (snd (handleSetConfig partial_world some_agent set_config_cmd))
       = [ErrorString ''agent.api.Connect:ApiKey:Unauthorized'']
   \<and> a_config (snd (snd (handleSetConfig partial_world some_agent set_config_cmd)))
       = \<lparr>ApiHostname = ''localhost'', ApiKey = ''123'', AgentUuid = ''abc-123-def'',
          Links = []\<rparr>
   \<and> last (a_ops (snd (snd (handleSetConfig partial_world some_agent set_config_cmd))))
       = WriteAgentConfig_op ''agent''
           \<lparr>ApiHostname = ''localhost'', ApiKey = ''123'', AgentUuid = ''abc-123-def'',
            Links = []\<rparr>
   \<and> aw_Unmarshal keeping_world (Data_c set_config_cmd) = Inr nothing_new
   \<and> ApiHostname nothing_new = '''' \<and> ApiKey nothing_new = ApiKey (a_config some_agent)
   \<and> a_config (snd (snd (handleSetConfig keeping_world some_agent set_config_cmd)))
       = a_config some_agent
   \<and> fst (snd (handleSetConfig keeping_world some_agent set_config_cmd)) = []"
proof -
  have u1: "aw_Unmarshal partial_world (Data_c set_config_cmd) = Inr new_key_and_host"
    by (simp add: partial_world_def new_key_and_host_def)
  have u2: "aw_Unmarshal keeping_world (Data_c set_config_cmd) = Inr nothing_new"
    by (simp add: keeping_world_def)
  have k1: "key_attempted some_agent new_key_and_host"
    and kr1: "key_result partial_world some_agent new_key_and_host
                = Some (ErrorString ''Unauthorized'')"
    and h1: "host_attempted some_agent new_key_and_host"
    and hr1: "host_result partial_world some_agent new_key_and_host = None"
    by (simp_all add: key_attempted_def key_result_def host_attempted_def host_result_def
          partial_world_def some_agent_def new_key_and_host_def)
  have k2: "\<not> key_attempted some_agent nothing_new"
    and h2: "\<not> host_attempted some_agent nothing_new"
    and w2: "aw_WriteConfig keeping_world = (\<lambda>name cfg. None)"
    and w1: "aw_WriteConfig partial_world = (\<lambda>name cfg. None)"
    by (simp_all add: key_attempted_def host_attempted_def keeping_world_def
          partial_world_def some_agent_def nothing_new_def)
  have c: "a_config some_agent
             = \<lparr>ApiHostname = ''cloud-api.percona.com'', ApiKey = ''123'',
                AgentUuid = ''abc-123-def'', Links = []\<rparr>"
    by (simp add: some_agent_def)
  have r1: "handleSetConfig partial_world some_agent set_config_cmd
              = (fst (handleSetConfig partial_world some_agent set_config_cmd),
                 fst (snd (handleSetConfig partial_world some_agent set_config_cmd)),
                 snd (snd (handleSetConfig partial_world some_agent set_config_cmd)))"
    by simp
  have r2: "handleSetConfig keeping_world some_agent set_config_cmd
              = (fst (handleSetConfig keeping_world some_agent set_config_cmd),
                 fst (snd (handleSetConfig keeping_world some_agent set_config_cmd)),
                 snd (snd (handleSetConfig keeping_world some_agent set_config_cmd)))"
    by simp
  note t1 = SetConfig_partial [where aw = partial_world and a = some_agent
      and cmd = set_config_cmd and new = new_key_and_host
      and data = "fst (handleSetConfig partial_world some_agent set_config_cmd)"
      and errs = "fst (snd (handleSetConfig partial_world some_agent set_config_cmd))"
      and a' = "snd (snd (handleSetConfig partial_world some_agent set_config_cmd))"]
  note t2 = SetConfig_partial [where aw = keeping_world and a = some_agent
      and cmd = set_config_cmd and new = nothing_new
      and data = "fst (handleSetConfig keeping_world some_agent set_config_cmd)"
      and errs = "fst (snd (handleSetConfig keeping_world some_agent set_config_cmd))"
      and a' = "snd (snd (handleSetConfig keeping_world some_agent set_config_cmd))"]
  have f1: "a_config (snd (snd (handleSetConfig partial_world some_agent set_config_cmd)))
       = \<lparr>ApiHostname = ''localhost'', ApiKey = ''123'', AgentUuid = ''abc-123-def'',
          Links = []\<rparr>"
    using t1 u1 r1 k1 kr1 h1 hr1 by (intro AgentCfg.equality) (simp_all add: c new_key_and_host_def)
  have e1: "fst (snd (handleSetConfig partial_world some_agent set_config_cmd))
       = [ErrorString ''agent.api.Connect:ApiKey:Unauthorized'']"
    using t1 u1 r1 k1 kr1 h1 hr1 by (simp add: w1 Error_text_def)
  have l1: "last (a_ops (snd (snd (handleSetConfig partial_world some_agent set_config_cmd))))
       = WriteAgentConfig_op ''agent''
           \<lparr>ApiHostname = ''localhost'', ApiKey = ''123'', AgentUuid = ''abc-123-def'',
            Links = []\<rparr>"
    using t1 u1 r1 f1 by simp
  have f2: "a_config (snd (snd (handleSetConfig keeping_world some_agent set_config_cmd)))
       = a_config some_agent"
    using t2 u2 r2 k2 h2 by (intro AgentCfg.equality) simp_all
  have e2: "fst (snd (handleSetConfig keeping_world some_agent set_config_cmd)) = []"
    using t2 u2 r2 k2 h2 by (simp add: w2)
  have n: "ApiHostname nothing_new = '''' \<and> ApiKey nothing_new = ApiKey (a_config some_agent)"
    by (simp add: nothing_new_def some_agent_def)
  show ?thesis
    using u1 k1 kr1 h1 hr1 e1 f1 l1 u2 n f2 e2 by blast
qed

end
